theory Spec2Isabelle
  imports Complex_Main "HOL-Library.Word"
begin

section \<open>The memory-object subsystem of the neural-networks runtime (runtime/Memory.cpp)\<close>

text \<open>
  A shallow embedding of \<^verbatim>\<open>src/runtime/Memory.cpp\<close>: the three validators, the copy engine
  (\<^verbatim>\<open>copyInternal\<close>, \<^verbatim>\<open>Memory::copy\<close>) and the descriptor builder
  (\<^verbatim>\<open>MemoryBuilder::addRole\<close>, \<^verbatim>\<open>setDimensions\<close>, \<^verbatim>\<open>finish\<close>, \<^verbatim>\<open>allocate\<close>).
  Mutation is explicit state passing, a failed \<^verbatim>\<open>CHECK\<close> (which aborts the process)
  is the value \<open>None\<close>, and everything Memory.cpp calls but does not define (the type
  manager, the driver, the compilation) is a parameter.
\<close>

subsection \<open>Machine types and result codes\<close>

type_synonym u32 = "32 word"

text \<open>
  The result codes Memory.cpp returns by name. \<open>OTHER_RESULT_CODE\<close> stands for any
  further value that a driver call or \<^verbatim>\<open>convertErrorStatusToResultCode\<close> may hand back.
\<close>

datatype result_code =
    ANEURALNETWORKS_NO_ERROR
  | ANEURALNETWORKS_OUT_OF_MEMORY
  | ANEURALNETWORKS_UNEXPECTED_NULL
  | ANEURALNETWORKS_BAD_DATA
  | ANEURALNETWORKS_OP_FAILED
  | ANEURALNETWORKS_BAD_STATE
  | ANEURALNETWORKS_UNMAPPABLE
  | OTHER_RESULT_CODE nat

datatype IOType = INPUT | OUTPUT

text \<open>
  A C++ \<^verbatim>\<open>float\<close> by its value: a NaN, an infinity or a finite number (both zeros are
  \<open>Finite 0\<close>; they compare equal in C++). The comparisons are the IEEE-754 ones the
  C++ comparison operators compute: every ordered comparison with a NaN is false and so
  is every equality test with a NaN (\<open>a != b\<close> is the negation of \<open>a == b\<close>).
\<close>

datatype float = NaN | PosInf | NegInf | Finite real

fun float_le :: "float \<Rightarrow> float \<Rightarrow> bool" where
  "float_le NaN b = False"
| "float_le a NaN = False"
| "float_le NegInf b = True"
| "float_le a PosInf = True"
| "float_le PosInf b = False"
| "float_le a NegInf = False"
| "float_le (Finite x) (Finite y) = (x \<le> y)"

definition float_gt :: "float \<Rightarrow> float \<Rightarrow> bool" where
  "float_gt a b = (a \<noteq> NaN \<and> b \<noteq> NaN \<and> \<not> float_le a b)"

definition float_eq :: "float \<Rightarrow> float \<Rightarrow> bool" where
  "float_eq a b = (a \<noteq> NaN \<and> b \<noteq> NaN \<and> a = b)"

subsection \<open>Operands and metadata\<close>

text \<open>
  \<^verbatim>\<open>hal::Operand\<close>, with the fields Memory.cpp reads: type, dimensions, scale, zeroPoint
  and extraParams (lifetime, location and the consumer count are never read there);
  the \<^verbatim>\<open>int32_t\<close> zero point is kept as its 32 bits, being compared for equality only.
  The extra parameters are the HAL's union of nothing, per-channel quantisation
  parameters, or extension bytes; its \<^verbatim>\<open>==\<close> compares member by member, floats with the
  C++ \<^verbatim>\<open>==\<close>.
\<close>

type_synonym OperandType = int

datatype OperandExtraParams =
    none
  | channelQuant "float list" u32
  | extension "8 word list"

fun extraParams_eq :: "OperandExtraParams \<Rightarrow> OperandExtraParams \<Rightarrow> bool" where
  "extraParams_eq none none = True"
| "extraParams_eq (channelQuant s d) (channelQuant s' d') = (list_all2 float_eq s s' \<and> d = d')"
| "extraParams_eq (extension a) (extension b) = (a = b)"
| "extraParams_eq x y = False"

record Operand =
  type :: OperandType
  dimensions :: "u32 list"
  scale :: float
  zeroPoint :: "32 word"
  extraParams :: OperandExtraParams

text \<open>
  The comparison of lines 140-143, whose negation is the test of lines 350-352: type,
  scale, zero point and extra parameters all equal.
\<close>

definition sameOperandType :: "Operand \<Rightarrow> Operand \<Rightarrow> bool" where
  "sameOperandType a b =
     (type a = type b \<and> float_eq (scale a) (scale b) \<and> zeroPoint a = zeroPoint b \<and>
      extraParams_eq (extraParams a) (extraParams b))"

text \<open>
  \<^verbatim>\<open>MemoryValidatorBase::Metadata\<close> as Memory.cpp builds and reads it: a value-initialised
  metadata has logical size 0, no dimensions and no operand.
\<close>

record Metadata =
  logicalSize :: u32
  md_dimensions :: "u32 list"
  operand :: "Operand option"

text \<open>
  \<^verbatim>\<open>TypeManager::get()\<close>: Memory.cpp calls \<^verbatim>\<open>isTensorType\<close> and \<^verbatim>\<open>getSizeOfData\<close>, defined in
  TypeManager.cpp. They are parameters of the model.
\<close>

record TypeManager =
  isTensorType :: "OperandType \<Rightarrow> bool"
  getSizeOfData :: "OperandType \<Rightarrow> u32 list \<Rightarrow> u32"

text \<open>
  Modelled from the spec: \<^verbatim>\<open>combineDimensions\<close> (Utils.cpp) is missing. The spec's
  Dimension Combiner: an empty (unknown-rank) vector combines to
  exactly the other vector; differing ranks where neither is empty is a failure; for
  equal ranks, per axis, an unknown-size axis (value 0) yields the other vector's
  value and two non-zero values must match exactly, else failure.
\<close>

fun combineAxes :: "u32 list \<Rightarrow> u32 list \<Rightarrow> u32 list option" where
  "combineAxes [] [] = Some []"
| "combineAxes (l # ls) (r # rs) =
     (if l = 0 then map_option (Cons r) (combineAxes ls rs)
      else if r \<noteq> 0 \<and> l \<noteq> r then None
      else map_option (Cons l) (combineAxes ls rs))"
| "combineAxes ls rs = None"

definition combineDimensions :: "u32 list \<Rightarrow> u32 list \<Rightarrow> u32 list option" where
  "combineDimensions lhs rhs =
     (if rhs = [] then Some lhs
      else if lhs = [] then Some rhs
      else if length lhs \<noteq> length rhs then None
      else combineAxes lhs rhs)"

subsection \<open>Validators\<close>

text \<open>
  A role a descriptor-made memory may play: the compilation (by address), input or
  output, and the index.
\<close>

type_synonym CompilationRole = "nat \<times> IOType \<times> u32"

text \<open>The fields of \<^verbatim>\<open>DeviceMemoryValidator\<close> (lines 160-173).\<close>

record DeviceMemoryValidator =
  kCompilationRoles :: "CompilationRole set"
  kOperand :: Operand
  kInitialDimensions :: "u32 list"
  mUpdatedDimensions :: "u32 list"
  mInitialized :: bool

text \<open>
  The three validator classes. \<^verbatim>\<open>SizedMemoryValidator\<close> and
  \<^verbatim>\<open>AHardwareBufferNonBlobValidator\<close> do not override \<^verbatim>\<open>setInitialized\<close> and
  \<^verbatim>\<open>isInitialized\<close>: they inherit them from \<^verbatim>\<open>MemoryValidatorBase\<close>, which Memory.h
  declares and Memory.cpp does not show. The inherited part is a parameter: a base state
  \<open>'b\<close> carried by these two validators (\<open>base_init\<close> when freshly constructed), and the
  two inherited methods over it.
\<close>

datatype 'b MemoryValidator =
    Sized u32 'b
  | NonBlob 'b
  | Device DeviceMemoryValidator

record 'b MemoryValidatorBase =
  base_init :: 'b
  base_setInitialized :: "bool \<Rightarrow> 'b \<Rightarrow> 'b"
  base_isInitialized :: "'b \<Rightarrow> bool"

text \<open>\<^verbatim>\<open>SizedMemoryValidator::validate\<close> (lines 49-54). \<open>offset + length\<close> is a 32-bit sum.\<close>

definition Sized_validate :: "u32 \<Rightarrow> u32 \<Rightarrow> u32 \<Rightarrow> bool" where
  "Sized_validate kSize offset len =
     (if \<not> (offset + len \<le> kSize) then False
      else if \<not> (offset \<noteq> 0 \<or> len \<noteq> 0) then False
      else True)"

text \<open>
  \<^verbatim>\<open>AHardwareBufferNonBlobValidator::validate\<close> (lines 72-81); \<open>compilation\<close> is \<open>None\<close>
  for the null pointer.
\<close>

definition NonBlob_validate :: "nat option \<Rightarrow> u32 \<Rightarrow> u32 \<Rightarrow> bool" where
  "NonBlob_validate compilation offset len =
     (if compilation = None then False
      else if \<not> (offset = 0 \<and> len = 0) then False
      else True)"

text \<open>
  \<^verbatim>\<open>DeviceMemoryValidator::validate\<close> (lines 99-121). \<open>ty\<close> is the dimension array of
  the \<^verbatim>\<open>ANeuralNetworksOperandType\<close> passed in, \<open>None\<close> for the null pointer.
\<close>

definition Device_validate ::
  "TypeManager \<Rightarrow> DeviceMemoryValidator \<Rightarrow> nat option \<Rightarrow> IOType \<Rightarrow> u32 \<Rightarrow> u32 list option \<Rightarrow>
   u32 \<Rightarrow> u32 \<Rightarrow> bool" where
  "Device_validate tm v compilation ioType index ty offset len =
     (case compilation of
        None \<Rightarrow> False
      | Some c \<Rightarrow>
          if (c, ioType, index) \<notin> kCompilationRoles v then False
          else if \<not> (offset = 0 \<and> len = 0) then False
          else (case ty of
                  None \<Rightarrow> True
                | Some dims \<Rightarrow>
                    if \<not> (isTensorType tm (type (kOperand v)) \<or> length dims = 0) then False
                    else combineDimensions dims (kInitialDimensions v) \<noteq> None))"

definition validate ::
  "TypeManager \<Rightarrow> 'b MemoryValidator \<Rightarrow> nat option \<Rightarrow> IOType \<Rightarrow> u32 \<Rightarrow> u32 list option \<Rightarrow>
   u32 \<Rightarrow> u32 \<Rightarrow> bool" where
  "validate tm v compilation ioType index ty offset len =
     (case v of
        Sized kSize b \<Rightarrow> Sized_validate kSize offset len
      | NonBlob b \<Rightarrow> NonBlob_validate compilation offset len
      | Device d \<Rightarrow> Device_validate tm d compilation ioType index ty offset len)"

text \<open>\<^verbatim>\<open>DeviceMemoryValidator::validateInputDimensions\<close> (lines 123-129).\<close>

definition validateInputDimensions :: "DeviceMemoryValidator \<Rightarrow> u32 list \<Rightarrow> bool" where
  "validateInputDimensions v dims =
     (if \<not> mInitialized v then False
      else if \<not> (dims = mUpdatedDimensions v) then False
      else True)"

text \<open>
  \<^verbatim>\<open>getMetadata\<close> (lines 56, 83, 131-136). The device validator's starts with
  \<^verbatim>\<open>CHECK(mInitialized)\<close>: \<open>None\<close> is the abort.
\<close>

definition getMetadata :: "TypeManager \<Rightarrow> 'b MemoryValidator \<Rightarrow> Metadata option" where
  "getMetadata tm v =
     (case v of
        Sized kSize b \<Rightarrow> Some \<lparr>logicalSize = kSize, md_dimensions = [], operand = None\<rparr>
      | NonBlob b \<Rightarrow> Some \<lparr>logicalSize = 0, md_dimensions = [], operand = None\<rparr>
      | Device d \<Rightarrow>
          if \<not> mInitialized d then None
          else Some \<lparr>logicalSize = getSizeOfData tm (type (kOperand d)) (mUpdatedDimensions d),
                     md_dimensions = mUpdatedDimensions d,
                     operand = Some (kOperand d)\<rparr>)"

text \<open>
  \<^verbatim>\<open>DeviceMemoryValidator::updateMetadata\<close> (lines 138-154): \<open>None\<close> when it returns
  false (nothing is written then), the validator with its new \<open>mUpdatedDimensions\<close> when
  it returns true.
\<close>

definition Device_updateMetadata ::
  "TypeManager \<Rightarrow> Metadata \<Rightarrow> DeviceMemoryValidator \<Rightarrow> DeviceMemoryValidator option" where
  "Device_updateMetadata tm metadata v =
     (if \<not> (case operand metadata of None \<Rightarrow> True | Some op \<Rightarrow> sameOperandType op (kOperand v))
      then None
      else if \<not> (md_dimensions metadata = [] \<or> isTensorType tm (type (kOperand v))) then None
      else (case combineDimensions (md_dimensions metadata) (kInitialDimensions v) of
              None \<Rightarrow> None
            | Some combined \<Rightarrow>
                if \<not> (logicalSize metadata = 0 \<or>
                       logicalSize metadata = getSizeOfData tm (type (kOperand v)) combined)
                then None
                else Some (v\<lparr>mUpdatedDimensions := combined\<rparr>)))"

text \<open>\<^verbatim>\<open>updateMetadata\<close> of the three classes (lines 57-59, 84, 138-154).\<close>

definition updateMetadata ::
  "TypeManager \<Rightarrow> Metadata \<Rightarrow> 'b MemoryValidator \<Rightarrow> 'b MemoryValidator option" where
  "updateMetadata tm metadata v =
     (case v of
        Sized kSize b \<Rightarrow>
          if logicalSize metadata = 0 \<or> logicalSize metadata = kSize then Some v else None
      | NonBlob b \<Rightarrow> Some v
      | Device d \<Rightarrow> map_option Device (Device_updateMetadata tm metadata d))"

text \<open>
  \<^verbatim>\<open>setInitialized\<close> and \<^verbatim>\<open>isInitialized\<close>: the device validator's own (lines 156-157),
  the inherited ones for the other two classes.
\<close>

definition setInitialized ::
  "'b MemoryValidatorBase \<Rightarrow> bool \<Rightarrow> 'b MemoryValidator \<Rightarrow> 'b MemoryValidator" where
  "setInitialized B initialized v =
     (case v of
        Sized kSize b \<Rightarrow> Sized kSize (base_setInitialized B initialized b)
      | NonBlob b \<Rightarrow> NonBlob (base_setInitialized B initialized b)
      | Device d \<Rightarrow> Device (d\<lparr>mInitialized := initialized\<rparr>))"

definition isInitialized :: "'b MemoryValidatorBase \<Rightarrow> 'b MemoryValidator \<Rightarrow> bool" where
  "isInitialized B v =
     (case v of
        Sized kSize b \<Rightarrow> base_isInitialized B b
      | NonBlob b \<Rightarrow> base_isInitialized B b
      | Device d \<Rightarrow> mInitialized d)"

subsection \<open>Memory objects and the copy engine\<close>

text \<open>
  A \<^verbatim>\<open>hidl_memory\<close> by what Memory.cpp asks of it (\<^verbatim>\<open>valid()\<close>, \<^verbatim>\<open>size()\<close>), and a
  \<^verbatim>\<open>Memory\<close>: the backing fields the three constructors set (lines 178-186; \<open>kBuffer\<close> is
  \<open>None\<close> for the null \<^verbatim>\<open>sp<IBuffer>\<close>, otherwise the buffer's address) and the
  validator pointer \<open>mValidator\<close>, \<open>None\<close> while null: the constructor of line 185 leaves
  it so until \<^verbatim>\<open>setValidator\<close> (line 493). Calling a method through the null validator
  does not return. Buffer contents and the burst registry \<open>mUsedBy\<close> are not tracked.
\<close>

record hidl_memory =
  hidl_valid :: bool
  hidl_size :: "64 word"

record Backing =
  kHidlMemory :: hidl_memory
  kBuffer :: "nat option"
  kToken :: u32

record 'b Memory =
  backing :: Backing
  mValidator :: "'b MemoryValidator option"

text \<open>\<^verbatim>\<open>BufferRole\<close> and \<^verbatim>\<open>MemoryDescriptor\<close>, with prepared models by address.\<close>

record BufferRole =
  modelIndex :: u32
  ioIndex :: u32
  frequency :: float

record MemoryDescriptor =
  desc_dimensions :: "u32 list"
  preparedModels :: "nat list"
  inputRoles :: "BufferRole list"
  outputRoles :: "BufferRole list"

text \<open>
  What Memory.cpp calls and does not define, as parameters:
  \<^item> \<open>createFromHidlMemory\<close>: \<^verbatim>\<open>RunTimePoolInfo::createFromHidlMemory\<close>; \<open>None\<close> for no
    pool, \<open>Some nonnull\<close> for a pool, \<open>nonnull\<close> telling whether its \<^verbatim>\<open>getBuffer()\<close> is
    not null;
  \<^item> \<open>IBuffer_copyTo\<close>, \<open>IBuffer_copyFrom\<close>: the driver's transfers; \<open>None\<close> when the
    transport failed (\<^verbatim>\<open>!ret.isOk()\<close>), otherwise the driver's \<^verbatim>\<open>ErrorStatus\<close> (by its
    numeric value);
  \<^item> \<open>convertErrorStatusToResultCode\<close>, \<open>allocateSharedMemory\<close>;
  \<^item> \<open>mapMemory\<close>: whether \<^verbatim>\<open>mapMemory\<close> gave a mapping with a non-null pointer;
  \<^item> \<open>getDevice\<close>: \<^verbatim>\<open>PreparedModel::getDevice\<close>, a device address (never null: line 414
    dereferences it unchecked);
  \<^item> \<open>Device_allocate\<close>: \<^verbatim>\<open>Device::allocate\<close>, returning a result code and the backing of
    a memory that has no validator yet (the constructor of line 185), or the null
    pointer;
  \<^item> \<open>preparedModels_add\<close>: the \<^verbatim>\<open>add\<close> of the descriptor's prepared-model container,
    returning the index and the container's new contents.
\<close>

type_synonym ErrorStatus = nat

record Externals =
  createFromHidlMemory :: "hidl_memory \<Rightarrow> bool option"
  IBuffer_copyTo :: "nat \<Rightarrow> hidl_memory \<Rightarrow> ErrorStatus option"
  IBuffer_copyFrom :: "nat \<Rightarrow> hidl_memory \<Rightarrow> u32 list \<Rightarrow> ErrorStatus option"
  convertErrorStatusToResultCode :: "ErrorStatus \<Rightarrow> result_code"
  allocateSharedMemory :: "u32 \<Rightarrow> hidl_memory"
  mapMemory :: "hidl_memory \<Rightarrow> bool"
  getDevice :: "nat \<Rightarrow> nat"
  Device_allocate :: "nat \<Rightarrow> MemoryDescriptor \<Rightarrow> result_code \<times> Backing option"
  preparedModels_add :: "nat list \<Rightarrow> nat \<Rightarrow> u32 \<times> nat list"

text \<open>
  \<^verbatim>\<open>copyHidlMemories\<close> (lines 215-231). The two \<^verbatim>\<open>CHECK\<close>s of lines 226-227 abort:
  \<open>None\<close>.
\<close>

definition copyHidlMemories :: "Externals \<Rightarrow> hidl_memory \<Rightarrow> hidl_memory \<Rightarrow> result_code option" where
  "copyHidlMemories E src dst =
     (if hidl_size src \<noteq> hidl_size dst then Some ANEURALNETWORKS_BAD_DATA
      else (case (createFromHidlMemory E src, createFromHidlMemory E dst) of
              (Some srcBuffer, Some dstBuffer) \<Rightarrow>
                if \<not> srcBuffer then None
                else if \<not> dstBuffer then None
                else Some ANEURALNETWORKS_NO_ERROR
            | _ \<Rightarrow> Some ANEURALNETWORKS_UNMAPPABLE))"

text \<open>\<^verbatim>\<open>copyIBufferToHidlMemory\<close> (lines 233-240).\<close>

definition copyIBufferToHidlMemory :: "Externals \<Rightarrow> nat \<Rightarrow> hidl_memory \<Rightarrow> result_code" where
  "copyIBufferToHidlMemory E src dst =
     (case IBuffer_copyTo E src dst of
        None \<Rightarrow> ANEURALNETWORKS_OP_FAILED
      | Some ret \<Rightarrow> convertErrorStatusToResultCode E ret)"

text \<open>\<^verbatim>\<open>copyHidlMemoryToIBuffer\<close> (lines 242-250).\<close>

definition copyHidlMemoryToIBuffer ::
  "Externals \<Rightarrow> hidl_memory \<Rightarrow> nat \<Rightarrow> u32 list \<Rightarrow> result_code" where
  "copyHidlMemoryToIBuffer E src dst dims =
     (case IBuffer_copyFrom E dst src dims of
        None \<Rightarrow> ANEURALNETWORKS_OP_FAILED
      | Some ret \<Rightarrow> convertErrorStatusToResultCode E ret)"

text \<open>\<^verbatim>\<open>copyIBuffers\<close> (lines 252-260).\<close>

definition copyIBuffers :: "Externals \<Rightarrow> nat \<Rightarrow> nat \<Rightarrow> Metadata \<Rightarrow> result_code" where
  "copyIBuffers E src dst srcMetadata =
     (let hidlMemory = allocateSharedMemory E (logicalSize srcMetadata) in
      if \<not> hidl_valid hidlMemory then ANEURALNETWORKS_OUT_OF_MEMORY
      else let n1 = copyIBufferToHidlMemory E src hidlMemory in
        if n1 \<noteq> ANEURALNETWORKS_NO_ERROR then n1
        else let n2 = copyHidlMemoryToIBuffer E hidlMemory dst (md_dimensions srcMetadata) in
          if n2 \<noteq> ANEURALNETWORKS_NO_ERROR then n2
          else ANEURALNETWORKS_NO_ERROR)"

text \<open>
  The store: memory objects by address. \<^verbatim>\<open>copyInternal\<close> and \<^verbatim>\<open>Memory::copy\<close> take two
  references, which may be the same object; the model takes the store and two
  addresses and returns the result code with the new store.
\<close>

type_synonym 'b store = "nat \<Rightarrow> 'b Memory"

text \<open>The dispatch on the backing kinds (lines 276-290).\<close>

definition copyDispatch :: "Externals \<Rightarrow> Backing \<Rightarrow> Backing \<Rightarrow> Metadata \<Rightarrow> result_code option" where
  "copyDispatch E src dst srcMetadata =
     (let srcHasHidlMemory = hidl_valid (kHidlMemory src);
          dstHasHidlMemory = hidl_valid (kHidlMemory dst);
          srcHasIBuffer = (kBuffer src \<noteq> None);
          dstHasIBuffer = (kBuffer dst \<noteq> None)
      in if srcHasIBuffer \<and> dstHasIBuffer
           then Some (copyIBuffers E (the (kBuffer src)) (the (kBuffer dst)) srcMetadata)
         else if srcHasHidlMemory \<and> dstHasHidlMemory
           then copyHidlMemories E (kHidlMemory src) (kHidlMemory dst)
         else if srcHasHidlMemory \<and> dstHasIBuffer
           then Some (copyHidlMemoryToIBuffer E (kHidlMemory src) (the (kBuffer dst))
                        (md_dimensions srcMetadata))
         else if srcHasIBuffer \<and> dstHasHidlMemory
           then Some (copyIBufferToHidlMemory E (the (kBuffer src)) (kHidlMemory dst))
         else Some ANEURALNETWORKS_OP_FAILED)"

text \<open>
  \<^verbatim>\<open>copyInternal\<close> (lines 262-291). \<open>None\<close> is an abort (a null validator, or a failed
  \<^verbatim>\<open>CHECK\<close> in \<^verbatim>\<open>getMetadata\<close> or \<^verbatim>\<open>copyHidlMemories\<close>).
\<close>

definition copyInternal ::
  "Externals \<Rightarrow> TypeManager \<Rightarrow> 'b MemoryValidatorBase \<Rightarrow> 'b store \<Rightarrow> nat \<Rightarrow> nat \<Rightarrow>
   (result_code \<times> 'b store) option" where
  "copyInternal E tm B h src dst =
     (if src = dst then Some (ANEURALNETWORKS_NO_ERROR, h)
      else (case mValidator (h src) of
              None \<Rightarrow> None
            | Some srcValidator \<Rightarrow>
                if \<not> isInitialized B srcValidator then Some (ANEURALNETWORKS_BAD_DATA, h)
                else (case getMetadata tm srcValidator of
                        None \<Rightarrow> None
                      | Some srcMetadata \<Rightarrow>
                          (case mValidator (h dst) of
                             None \<Rightarrow> None
                           | Some dstValidator \<Rightarrow>
                               (case updateMetadata tm srcMetadata dstValidator of
                                  None \<Rightarrow> Some (ANEURALNETWORKS_BAD_DATA, h)
                                | Some v \<Rightarrow>
                                    (let h' = h(dst := (h dst)\<lparr>mValidator := Some v\<rparr>) in
                                     map_option (\<lambda>n. (n, h'))
                                       (copyDispatch E (backing (h' src)) (backing (h' dst))
                                          srcMetadata)))))))"

text \<open>\<^verbatim>\<open>Memory::copy\<close> (lines 293-297).\<close>

definition copy ::
  "Externals \<Rightarrow> TypeManager \<Rightarrow> 'b MemoryValidatorBase \<Rightarrow> 'b store \<Rightarrow> nat \<Rightarrow> nat \<Rightarrow>
   (result_code \<times> 'b store) option" where
  "copy E tm B h src dst =
     (case copyInternal E tm B h src dst of
        None \<Rightarrow> None
      | Some (n, h') \<Rightarrow>
          (case mValidator (h' dst) of
             None \<Rightarrow> None
           | Some v \<Rightarrow>
               Some (n, h'(dst := (h' dst)\<lparr>mValidator :=
                       Some (setInitialized B (n = ANEURALNETWORKS_NO_ERROR) v)\<rparr>))))"

subsection \<open>The descriptor builder\<close>

text \<open>
  What \<^verbatim>\<open>addRole\<close> asks of the compilation and its model (CompilationBuilder.h and
  ModelBuilder.h declare them): the compilation's address, which is the role key; the
  result code of \<^verbatim>\<open>forEachStepRoleOfInput\<close> / \<^verbatim>\<open>forEachStepRoleOfOutput\<close> for an index,
  with the (prepared model, kind, index) triples it passed to the callback, in order;
  and the model, \<open>None\<close> for the null pointer.
\<close>

record ModelBuilder =
  inputCount :: u32
  outputCount :: u32
  getInputOperand :: "u32 \<Rightarrow> Operand"
  getOutputOperand :: "u32 \<Rightarrow> Operand"

record CompilationBuilder =
  address :: nat
  forEachStepRoleOfInput :: "u32 \<Rightarrow> result_code \<times> (nat \<times> IOType \<times> u32) list"
  forEachStepRoleOfOutput :: "u32 \<Rightarrow> result_code \<times> (nat \<times> IOType \<times> u32) list"
  getModel :: "ModelBuilder option"

text \<open>The fields of \<^verbatim>\<open>MemoryBuilder\<close> that Memory.cpp reads and writes.\<close>

record MemoryBuilder =
  mDesc :: MemoryDescriptor
  mRoles :: "CompilationRole set"
  mOperand :: "Operand option"
  mAllocator :: "nat option"
  mFinished :: bool

text \<open>\<^verbatim>\<open>MemoryBuilder::badState\<close> (lines 299-305).\<close>

definition badState :: "MemoryBuilder \<Rightarrow> bool" where
  "badState b = (if mFinished b then True else False)"

text \<open>The loop of lines 374-382, over the triples the callback collected.\<close>

fun recordRoles ::
  "Externals \<Rightarrow> float \<Rightarrow> (nat \<times> IOType \<times> u32) list \<Rightarrow> MemoryDescriptor \<Rightarrow> MemoryDescriptor" where
  "recordRoles E freq [] d = d"
| "recordRoles E freq ((preparedModel, ty, ind) # rest) d =
     (let (modelIdx, pms) = preparedModels_add E (preparedModels d) preparedModel;
          role = \<lparr>modelIndex = modelIdx, ioIndex = ind, frequency = freq\<rparr>;
          d1 = d\<lparr>preparedModels := pms\<rparr>
      in recordRoles E freq rest
           (if ty = INPUT then d1\<lparr>inputRoles := inputRoles d1 @ [role]\<rparr>
            else d1\<lparr>outputRoles := outputRoles d1 @ [role]\<rparr>))"

text \<open>
  \<^verbatim>\<open>MemoryBuilder::addRole\<close> (lines 307-386): the result code and the builder after the
  call; \<open>None\<close> is the abort of \<^verbatim>\<open>CHECK(model != nullptr)\<close>.
\<close>

definition addRole ::
  "Externals \<Rightarrow> TypeManager \<Rightarrow> MemoryBuilder \<Rightarrow> CompilationBuilder \<Rightarrow> IOType \<Rightarrow> u32 \<Rightarrow> float \<Rightarrow>
   (result_code \<times> MemoryBuilder) option" where
  "addRole E tm b compilation ioType index freq =
     (if badState b then Some (ANEURALNETWORKS_BAD_STATE, b)
      else if (address compilation, ioType, index) \<in> mRoles b
        then Some (ANEURALNETWORKS_BAD_DATA, b)
      else
        (let (n, roles) = (if ioType = INPUT then forEachStepRoleOfInput compilation index
                           else forEachStepRoleOfOutput compilation index)
         in if n \<noteq> ANEURALNETWORKS_NO_ERROR then Some (ANEURALNETWORKS_BAD_DATA, b)
            else (case getModel compilation of
                    None \<Rightarrow> None
                  | Some model \<Rightarrow>
                      if index \<ge> (if ioType = INPUT then inputCount model else outputCount model)
                        then Some (ANEURALNETWORKS_BAD_DATA, b)
                      else
                        (let opnd = (if ioType = INPUT then getInputOperand model index
                                     else getOutputOperand model index)
                         in if (case mOperand b of None \<Rightarrow> False
                                | Some mo \<Rightarrow> \<not> sameOperandType opnd mo)
                              then Some (ANEURALNETWORKS_BAD_DATA, b)
                            else if \<not> isTensorType tm (type opnd) \<and> desc_dimensions (mDesc b) \<noteq> []
                              then Some (ANEURALNETWORKS_BAD_DATA, b)
                            else (case combineDimensions (desc_dimensions (mDesc b)) (dimensions opnd) of
                                    None \<Rightarrow> Some (ANEURALNETWORKS_BAD_DATA, b)
                                  | Some combined \<Rightarrow>
                                      if float_gt freq (Finite 1) \<or> float_le freq (Finite 0)
                                        then Some (ANEURALNETWORKS_BAD_DATA, b)
                                      else Some (ANEURALNETWORKS_NO_ERROR,
                                        b\<lparr>mRoles := insert (address compilation, ioType, index) (mRoles b),
                                          mDesc := (recordRoles E freq roles (mDesc b))
                                                     \<lparr>desc_dimensions := combined\<rparr>,
                                          mOperand := Some opnd\<rparr>))))))"

text \<open>\<^verbatim>\<open>MemoryBuilder::setDimensions\<close> (lines 388-403).\<close>

definition setDimensions ::
  "TypeManager \<Rightarrow> MemoryBuilder \<Rightarrow> u32 list \<Rightarrow> result_code \<times> MemoryBuilder" where
  "setDimensions tm b dims =
     (if badState b then (ANEURALNETWORKS_BAD_STATE, b)
      else if (case mOperand b of None \<Rightarrow> False | Some mo \<Rightarrow> \<not> isTensorType tm (type mo)) \<and>
              dims \<noteq> []
        then (ANEURALNETWORKS_BAD_DATA, b)
      else (case combineDimensions (desc_dimensions (mDesc b)) dims of
              None \<Rightarrow> (ANEURALNETWORKS_BAD_DATA, b)
            | Some combined \<Rightarrow>
                (ANEURALNETWORKS_NO_ERROR, b\<lparr>mDesc := (mDesc b)\<lparr>desc_dimensions := combined\<rparr>\<rparr>)))"

text \<open>
  The loop of \<^verbatim>\<open>selectDeviceMemoryAllocator\<close> (lines 429-437), with the local
  \<open>allocator\<close> (\<open>None\<close> is \<^verbatim>\<open>nullptr\<close>) as an argument: \<open>Inl ()\<close> when the loop leaves
  through \<^verbatim>\<open>return nullptr\<close>, \<open>Inr allocator\<close> when it runs to its end.
\<close>

fun selectLoop :: "Externals \<Rightarrow> nat option \<Rightarrow> nat list \<Rightarrow> unit + nat option" where
  "selectLoop E allocator [] = Inr allocator"
| "selectLoop E allocator (preparedModel # rest) =
     (let device = getDevice E preparedModel in
      if allocator = None then selectLoop E (Some device) rest
      else if allocator \<noteq> Some device then Inl ()
      else selectLoop E allocator rest)"

text \<open>
  \<^verbatim>\<open>selectDeviceMemoryAllocator\<close> (lines 427-441): \<open>Some None\<close> is the returned
  \<^verbatim>\<open>nullptr\<close>, \<open>Some (Some device)\<close> the selected device, and \<open>None\<close> the abort of
  \<^verbatim>\<open>CHECK(allocator != nullptr)\<close>.
\<close>

definition selectDeviceMemoryAllocator :: "Externals \<Rightarrow> MemoryDescriptor \<Rightarrow> nat option option" where
  "selectDeviceMemoryAllocator E desc =
     (case selectLoop E None (preparedModels desc) of
        Inl u \<Rightarrow> Some None
      | Inr allocator \<Rightarrow> if allocator = None then None else Some allocator)"

text \<open>
  \<^verbatim>\<open>MemoryBuilder::finish\<close> (lines 443-456); \<open>None\<close> is an abort. The logging of
  lines 450-452 is left out.
\<close>

definition finish :: "Externals \<Rightarrow> MemoryBuilder \<Rightarrow> (result_code \<times> MemoryBuilder) option" where
  "finish E b =
     (if badState b then Some (ANEURALNETWORKS_BAD_STATE, b)
      else if mRoles b = {} then Some (ANEURALNETWORKS_BAD_DATA, b)
      else if mOperand b = None then None
      else (case selectDeviceMemoryAllocator E (mDesc b) of
              None \<Rightarrow> None
            | Some allocator \<Rightarrow>
                Some (ANEURALNETWORKS_NO_ERROR, b\<lparr>mAllocator := allocator, mFinished := True\<rparr>)))"

text \<open>
  \<^verbatim>\<open>MemoryAshmem::create\<close> (lines 498-507) with the constructors of lines 513-514 and
  178-180: a host memory whose validator is a \<^verbatim>\<open>SizedMemoryValidator\<close> of the segment's
  size, cut to 32 bits; it has no driver buffer and no token (\<open>kToken\<close> 0).
\<close>

definition MemoryAshmem_create ::
  "Externals \<Rightarrow> 'b MemoryValidatorBase \<Rightarrow> u32 \<Rightarrow> result_code \<times> 'b Memory option" where
  "MemoryAshmem_create E B sz =
     (let hidlMemory = allocateSharedMemory E sz in
      if \<not> mapMemory E hidlMemory then (ANEURALNETWORKS_OUT_OF_MEMORY, None)
      else (ANEURALNETWORKS_NO_ERROR,
            Some \<lparr>backing = \<lparr>kHidlMemory = hidlMemory, kBuffer = None, kToken = 0\<rparr>,
                  mValidator = Some (Sized (ucast (hidl_size hidlMemory)) (base_init B))\<rparr>))"

text \<open>
  The allocation calls \<^verbatim>\<open>MemoryBuilder::allocate\<close> makes, in order: on a device
  (\<^verbatim>\<open>mAllocator->allocate\<close>, line 478) or on the host (\<^verbatim>\<open>MemoryAshmem::create\<close>, line 486).
\<close>

datatype allocation_call = DeviceAllocate nat | AshmemCreate u32

text \<open>
  \<^verbatim>\<open>MemoryBuilder::allocate\<close> (lines 458-496): the returned pair and the allocation
  calls made; \<open>None\<close> is the abort of a \<^verbatim>\<open>CHECK\<close> (lines 465 and 490).
\<close>

definition allocate ::
  "Externals \<Rightarrow> TypeManager \<Rightarrow> 'b MemoryValidatorBase \<Rightarrow> MemoryBuilder \<Rightarrow>
   ((result_code \<times> 'b Memory option) \<times> allocation_call list) option" where
  "allocate E tm B b =
     (if \<not> mFinished b then Some ((ANEURALNETWORKS_BAD_STATE, None), [])
      else (case mOperand b of
              None \<Rightarrow> None
            | Some opnd \<Rightarrow>
                (let sz = getSizeOfData tm (type opnd) (desc_dimensions (mDesc b)) in
                 if sz = 0 then Some ((ANEURALNETWORKS_OP_FAILED, None), [])
                 else
                   (let (n1, memory1, calls1) =
                          (case mAllocator b of
                             None \<Rightarrow> (ANEURALNETWORKS_OP_FAILED, None, [])
                           | Some device \<Rightarrow>
                               (let (n, m) = Device_allocate E device (mDesc b) in
                                (n, map_option (\<lambda>bk. \<lparr>backing = bk, mValidator = None\<rparr>) m,
                                 [DeviceAllocate device])));
                        (n2, memory2, calls2) =
                          (if n1 \<noteq> ANEURALNETWORKS_NO_ERROR
                           then (let (n, m) = MemoryAshmem_create E B sz in
                                 (n, m, calls1 @ [AshmemCreate sz]))
                           else (n1, memory1, calls1))
                    in if n2 = ANEURALNETWORKS_NO_ERROR
                       then (case memory2 of
                               None \<Rightarrow> None
                             | Some memory \<Rightarrow>
                                 Some ((n2, Some (memory\<lparr>mValidator := Some (Device
                                          \<lparr>kCompilationRoles = mRoles b, kOperand = opnd,
                                           kInitialDimensions = desc_dimensions (mDesc b),
                                           mUpdatedDimensions = desc_dimensions (mDesc b),
                                           mInitialized = False\<rparr>)\<rparr>)), calls2))
                       else Some ((n2, memory2), calls2)))))"

text \<open>
  A descriptor as \<^verbatim>\<open>ANeuralNetworksMemoryDesc_create\<close> hands it out ("a memory
  descriptor with no properties"): no role, no operand, no dimensions, no allocator,
  not finished.
\<close>

definition newMemoryBuilder :: MemoryBuilder where
  "newMemoryBuilder =
     \<lparr>mDesc = \<lparr>desc_dimensions = [], preparedModels = [], inputRoles = [], outputRoles = []\<rparr>,
      mRoles = {}, mOperand = None, mAllocator = None, mFinished = False\<rparr>"

text \<open>
  The calls that modify a descriptor before \<^verbatim>\<open>finish\<close>, and a descriptor's history: the
  builder after a sequence of such calls, each with whatever result code it returned
  (\<open>None\<close> if one of them aborted).
\<close>

datatype builder_call =
    AddRole CompilationBuilder IOType u32 float
  | SetDimensions "u32 list"

fun runCalls ::
  "Externals \<Rightarrow> TypeManager \<Rightarrow> MemoryBuilder \<Rightarrow> builder_call list \<Rightarrow> MemoryBuilder option" where
  "runCalls E tm b [] = Some b"
| "runCalls E tm b (AddRole c io i f # rest) =
     (case addRole E tm b c io i f of
        None \<Rightarrow> None
      | Some (n, b') \<Rightarrow> runCalls E tm b' rest)"
| "runCalls E tm b (SetDimensions dims # rest) =
     runCalls E tm (snd (setDimensions tm b dims)) rest"

subsection \<open>Concrete instances for the examples\<close>

text \<open>
  A type manager with one tensor type (code 3) of four-byte elements, whose data size is
  the element size times the dimensions, hence 0 while the rank or a dimension is
  unknown; every other type is a four-byte scalar.
\<close>

definition sampleTypeManager :: TypeManager where
  "sampleTypeManager =
     \<lparr>isTensorType = (\<lambda>t. t = 3),
      getSizeOfData = (\<lambda>t dims. if t = 3 then (if dims = [] then 0 else 4 * prod_list dims) else 4)\<rparr>"

text \<open>Inherited validator methods that keep no state and always report initialized.\<close>

definition sampleBase :: "unit MemoryValidatorBase" where
  "sampleBase =
     \<lparr>base_init = (), base_setInitialized = (\<lambda>initialized s. s), base_isInitialized = (\<lambda>s. True)\<rparr>"

text \<open>
  A driver whose transfers succeed, whose device allocation fails, and where prepared
  model \<open>p\<close> runs on device \<open>p div 10\<close>; the prepared-model container adds an object
  if it is not there yet and returns its index.
\<close>

definition sampleExternals :: Externals where
  "sampleExternals =
     \<lparr>createFromHidlMemory = (\<lambda>m. Some True),
      IBuffer_copyTo = (\<lambda>buf m. Some 0),
      IBuffer_copyFrom = (\<lambda>buf m dims. Some 0),
      convertErrorStatusToResultCode =
        (\<lambda>st. if st = 0 then ANEURALNETWORKS_NO_ERROR else ANEURALNETWORKS_OP_FAILED),
      allocateSharedMemory = (\<lambda>sz. \<lparr>hidl_valid = True, hidl_size = ucast sz\<rparr>),
      mapMemory = hidl_valid,
      getDevice = (\<lambda>p. p div 10),
      Device_allocate = (\<lambda>device desc. (ANEURALNETWORKS_OP_FAILED, None)),
      preparedModels_add =
        (\<lambda>pms p. if p \<in> set pms then (of_nat (length (takeWhile (\<lambda>x. x \<noteq> p) pms)), pms)
                  else (of_nat (length pms), pms @ [p]))\<rparr>"

definition sampleOperand :: "u32 list \<Rightarrow> Operand" where
  "sampleOperand dims =
     \<lparr>type = 3, dimensions = dims, scale = Finite 0, zeroPoint = 0, extraParams = none\<rparr>"

text \<open>
  A compilation at address 100 with one input of shape [1,4,4,3] and one output of
  shape [0,4,4,3]; the input runs as a step of prepared model 10 (device 1), the
  output as a step of prepared model 20 (device 2).
\<close>

definition sampleCompilation :: CompilationBuilder where
  "sampleCompilation =
     \<lparr>address = 100,
      forEachStepRoleOfInput = (\<lambda>i. (ANEURALNETWORKS_NO_ERROR, [(10, INPUT, i)])),
      forEachStepRoleOfOutput = (\<lambda>i. (ANEURALNETWORKS_NO_ERROR, [(20, OUTPUT, i)])),
      getModel = Some \<lparr>inputCount = 1, outputCount = 1,
                       getInputOperand = (\<lambda>i. sampleOperand [1, 4, 4, 3]),
                       getOutputOperand = (\<lambda>i. sampleOperand [0, 4, 4, 3])\<rparr>\<rparr>"

text \<open>The same at address 200, with the first dimension of the input unknown too.\<close>

definition sampleCompilationUnknown :: CompilationBuilder where
  "sampleCompilationUnknown =
     \<lparr>address = 200,
      forEachStepRoleOfInput = (\<lambda>i. (ANEURALNETWORKS_NO_ERROR, [(10, INPUT, i)])),
      forEachStepRoleOfOutput = (\<lambda>i. (ANEURALNETWORKS_NO_ERROR, [(20, OUTPUT, i)])),
      getModel = Some \<lparr>inputCount = 1, outputCount = 1,
                       getInputOperand = (\<lambda>i. sampleOperand [0, 4, 4, 3]),
                       getOutputOperand = (\<lambda>i. sampleOperand [0, 4, 4, 3])\<rparr>\<rparr>"

text \<open>
  A memory made from a descriptor (one input role of \<open>sampleCompilation\<close>), backed by a
  driver buffer, never written: its validator is not initialized.
\<close>

definition sampleDeviceValidator :: DeviceMemoryValidator where
  "sampleDeviceValidator =
     \<lparr>kCompilationRoles = {(100, INPUT, 0)}, kOperand = sampleOperand [1, 4, 4, 3],
      kInitialDimensions = [1, 4, 4, 3], mUpdatedDimensions = [1, 4, 4, 3],
      mInitialized = False\<rparr>"

definition sampleDeviceMemory :: "unit Memory" where
  "sampleDeviceMemory =
     \<lparr>backing = \<lparr>kHidlMemory = \<lparr>hidl_valid = False, hidl_size = 0\<rparr>, kBuffer = Some 7, kToken = 1\<rparr>,
      mValidator = Some (Device sampleDeviceValidator)\<rparr>"

text \<open>A host memory of 48 bytes.\<close>

definition sampleHostMemory :: "unit Memory" where
  "sampleHostMemory =
     \<lparr>backing = \<lparr>kHidlMemory = \<lparr>hidl_valid = True, hidl_size = 48\<rparr>, kBuffer = None, kToken = 0\<rparr>,
      mValidator = Some (Sized 48 ())\<rparr>"

text \<open>
  A store with the never-written device memory at address 0, the host memory at
  address 1, and everywhere else a device memory that has been written (initialized).
\<close>

definition sampleStore :: "unit store" where
  "sampleStore =
     (\<lambda>a. if a = 0 then sampleDeviceMemory
          else if a = 1 then sampleHostMemory
          else sampleDeviceMemory
                 \<lparr>mValidator := Some (Device (sampleDeviceValidator\<lparr>mInitialized := True\<rparr>))\<rparr>)"

text \<open>
  A finished descriptor with one input role, the given dimensions and the given
  allocator.
\<close>

definition sampleFinishedBuilder :: "u32 list \<Rightarrow> nat option \<Rightarrow> MemoryBuilder" where
  "sampleFinishedBuilder dims allocator =
     \<lparr>mDesc = \<lparr>desc_dimensions = dims, preparedModels = [10],
               inputRoles = [\<lparr>modelIndex = 0, ioIndex = 0, frequency = Finite 1\<rparr>],
               outputRoles = []\<rparr>,
      mRoles = {(100, INPUT, 0)}, mOperand = Some (sampleOperand dims),
      mAllocator = allocator, mFinished = True\<rparr>"

text \<open>
  The unfinished descriptor after an input role and an output role of
  \<open>sampleCompilationUnknown\<close>: prepared models 10 and 20, shape [0,4,4,3].
\<close>

definition sampleTwoDeviceBuilder :: MemoryBuilder where
  "sampleTwoDeviceBuilder =
     \<lparr>mDesc = \<lparr>desc_dimensions = [0, 4, 4, 3], preparedModels = [10, 20],
               inputRoles = [\<lparr>modelIndex = 0, ioIndex = 0, frequency = Finite 1\<rparr>],
               outputRoles = [\<lparr>modelIndex = 1, ioIndex = 0, frequency = Finite 1\<rparr>]\<rparr>,
      mRoles = {(200, OUTPUT, 0), (200, INPUT, 0)},
      mOperand = Some (sampleOperand [0, 4, 4, 3]),
      mAllocator = None, mFinished = False\<rparr>"

section \<open>Properties\<close>

subsection \<open>The sized validator's window check\<close>

text \<open>
  \<^verbatim>\<open>SizedMemoryValidator::validate\<close> accepts exactly when the 32-bit sum of offset and
  length is at most the size and offset and length are not both zero. While the sum
  does not overflow, this is the bound on the window itself.
\<close>

lemma Sized_validate_iff:
  "Sized_validate kSize offset len \<longleftrightarrow>
     (unat offset + unat len) mod 2 ^ 32 \<le> unat kSize \<and> \<not> (offset = 0 \<and> len = 0)"
  by (auto simp: Sized_validate_def word_le_nat_alt unat_word_ariths)

lemma Sized_validate_no_overflow:
  "unat offset + unat len < 2 ^ 32 \<Longrightarrow>
   Sized_validate kSize offset len \<longleftrightarrow>
     unat offset + unat len \<le> unat kSize \<and> \<not> (offset = 0 \<and> len = 0)"
  by (simp add: Sized_validate_iff)

text \<open>
  C5. Claim: a Sized validator of byte size S accepts if and only if offset + length is
  within S and not both are zero, for every offset and length. The code computes
  \<open>offset + length\<close> in 32 bits: for S = 10, offset = 4294967295 and length = 2 the sum
  wraps to 1 and the window, which ends far beyond the 10 bytes, is accepted.
\<close>

theorem Sized_validate_wraps:
  "Sized_validate 10 0xFFFFFFFF 2 \<and>
   validate tm (Sized 10 b) compilation ioType index ty 0xFFFFFFFF 2 \<and>
   \<not> (unat (0xFFFFFFFF :: u32) + unat (2 :: u32) \<le> unat (10 :: u32))"
  by (simp add: validate_def Sized_validate_def)

theorem Sized_validate_wraps_witness:
  "validate sampleTypeManager (Sized 10 ()) None INPUT 0 None 0xFFFFFFFF 2"
  using Sized_validate_wraps [of sampleTypeManager "()" None INPUT 0 None] by simp

subsection \<open>Input dimensions of a descriptor-made memory\<close>

text \<open>
  C8. For the Device-role validator, \<open>validateInputDimensions dims\<close> fails whenever the
  object is not initialized, fails whenever \<open>dims\<close> is not exactly the currently
  resolved dimensions (no combination is attempted: [0,4] does not match [1,4]), and
  succeeds when the object is initialized and \<open>dims\<close> equals the resolved dimensions.
\<close>

theorem validateInputDimensions_iff:
  "validateInputDimensions v dims \<longleftrightarrow> mInitialized v \<and> dims = mUpdatedDimensions v"
  by (simp add: validateInputDimensions_def)

subsection \<open>Registering roles\<close>

text \<open>
  C10. \<open>addRole\<close> is atomic on failure: whenever it returns a code other than
  \<open>ANEURALNETWORKS_NO_ERROR\<close>, the builder (role set, recorded operand, accumulated
  dimensions, input and output role lists, prepared models, allocator and finished
  flag) is what it was before the call.
\<close>

theorem addRole_failure_atomic:
  assumes "addRole E tm b compilation ioType index freq = Some (n, b')"
    and "n \<noteq> ANEURALNETWORKS_NO_ERROR"
  shows "b' = b"
  using assms
  by (auto simp: addRole_def Let_def split: if_splits option.splits prod.splits)

theorem addRole_failure_atomic_witness:
  "addRole sampleExternals sampleTypeManager newMemoryBuilder sampleCompilation INPUT 1 (Finite 1)
     = Some (ANEURALNETWORKS_BAD_DATA, newMemoryBuilder)"
proof -
  have run: "\<exists>b'. addRole sampleExternals sampleTypeManager newMemoryBuilder sampleCompilation
               INPUT 1 (Finite 1) = Some (ANEURALNETWORKS_BAD_DATA, b')"
    by (simp add: addRole_def badState_def newMemoryBuilder_def sampleCompilation_def)
  then obtain b' where r: "addRole sampleExternals sampleTypeManager newMemoryBuilder
      sampleCompilation INPUT 1 (Finite 1) = Some (ANEURALNETWORKS_BAD_DATA, b')"
    by blast
  have "b' = newMemoryBuilder"
    using addRole_failure_atomic [OF r] by simp
  with r show ?thesis by simp
qed








subsection \<open>The frequency of a role\<close>

text \<open>
  What the check of line 368 does: on an unfinished descriptor and a compilation with a
  model, every frequency that compares greater than 1 or at most 0 is rejected with
  \<open>ANEURALNETWORKS_BAD_DATA\<close>; these are all the frequencies outside (0, 1] except NaN.
  And if a call succeeds with some frequency, it succeeds with 1.0.
\<close>

lemma float_outside_unit_interval:
  assumes "freq \<noteq> NaN" and "\<not> (float_gt freq (Finite 0) \<and> float_le freq (Finite 1))"
  shows "float_gt freq (Finite 1) \<or> float_le freq (Finite 0)"
  using assms by (cases freq) (auto simp: float_gt_def)

lemma addRole_rejects_frequency:
  assumes "\<not> mFinished b" and "getModel compilation \<noteq> None"
    and "float_gt freq (Finite 1) \<or> float_le freq (Finite 0)"
  shows "addRole E tm b compilation ioType index freq = Some (ANEURALNETWORKS_BAD_DATA, b)"
  using assms
  by (auto simp: addRole_def badState_def Let_def split: if_splits option.splits prod.splits)

lemma addRole_accepts_one:
  assumes "addRole E tm b compilation ioType index freq = Some (ANEURALNETWORKS_NO_ERROR, b')"
  shows "\<exists>b''. addRole E tm b compilation ioType index (Finite 1) =
           Some (ANEURALNETWORKS_NO_ERROR, b'')"
  using assms
  by (auto simp: addRole_def badState_def Let_def float_gt_def
      split: if_splits option.splits prod.splits)

text \<open>
  C7. Claim: \<open>addRole\<close> rejects, with \<open>ANEURALNETWORKS_BAD_DATA\<close>, every frequency outside
  (0.0, 1.0], and accepts 1.0 when the other preconditions hold. The check is
  \<^verbatim>\<open>freq > 1.0f || freq <= 0.0f\<close>; both comparisons are false for a NaN, which is not in
  (0.0, 1.0]: the first role of a fresh descriptor is registered with frequency NaN and
  the call returns \<open>ANEURALNETWORKS_NO_ERROR\<close>, while 0.0 and 1.5 are rejected and 1.0 is
  accepted.
\<close>

theorem addRole_accepts_NaN:
  "map_option fst (addRole sampleExternals sampleTypeManager newMemoryBuilder sampleCompilation
      INPUT 0 NaN) = Some ANEURALNETWORKS_NO_ERROR \<and>
   \<not> (float_gt NaN (Finite 0) \<and> float_le NaN (Finite 1)) \<and>
   map_option fst (addRole sampleExternals sampleTypeManager newMemoryBuilder sampleCompilation
      INPUT 0 (Finite 0)) = Some ANEURALNETWORKS_BAD_DATA \<and>
   map_option fst (addRole sampleExternals sampleTypeManager newMemoryBuilder sampleCompilation
      INPUT 0 (Finite (3 / 2))) = Some ANEURALNETWORKS_BAD_DATA \<and>
   map_option fst (addRole sampleExternals sampleTypeManager newMemoryBuilder sampleCompilation
      INPUT 0 (Finite 1)) = Some ANEURALNETWORKS_NO_ERROR"
  by (simp add: addRole_def badState_def newMemoryBuilder_def sampleCompilation_def
      sampleTypeManager_def sampleOperand_def combineDimensions_def float_gt_def)

theorem addRole_accepts_NaN_witness:
  "map_option fst (addRole sampleExternals sampleTypeManager newMemoryBuilder sampleCompilation
      INPUT 0 NaN) = Some ANEURALNETWORKS_NO_ERROR"
  using addRole_accepts_NaN by simp

subsection \<open>Updating a validator's metadata\<close>

lemma combineDimensions_empty: "combineDimensions [] k = Some k"
  by (simp add: combineDimensions_def)

text \<open>
  C9 (as amended). \<open>updateMetadata\<close> of the Device-role validator \<open>d\<close> (the only one with
  a fixed operand type and recorded dimensions) rejects metadata whose operand differs
  from \<open>kOperand\<close> in type, scale, zero point or extra parameters; it combines the
  incoming dimensions with the recorded dimensions \<open>kInitialDimensions\<close>, fails if they
  are incompatible, and on success the combination is the new \<open>mUpdatedDimensions\<close>. A
  zero logical size or empty dimensions lift only their own check, the other checks
  still decide:
  \<^item> with a zero logical size the size is not compared, and the metadata is accepted
    exactly when the operand, the scalar check and the combination pass;
  \<^item> with empty dimensions the scalar check and the combination pass, and the metadata
    is accepted exactly when the operand matches and the logical size is zero or the
    size of the recorded dimensions;
  \<^item> with both, the metadata is accepted exactly when the operand is absent or
    matches, and the resolved dimensions become the recorded ones.
  The Sized validator accepts exactly when the logical size is zero or its own size,
  whatever the dimensions and the operand; the non-BLOB validator accepts everything.
  For every validator, a metadata that is accepted is also accepted with its logical
  size set to zero, and a metadata with zero logical size, empty dimensions and no
  operand is accepted.
\<close>

theorem updateMetadata_contract:
  "(\<forall>op. operand md = Some op \<and> \<not> sameOperandType op (kOperand d) \<longrightarrow>
       updateMetadata tm md (Device d :: 'b MemoryValidator) = None) \<and>
   (combineDimensions (md_dimensions md) (kInitialDimensions d) = None \<longrightarrow>
       updateMetadata tm md (Device d :: 'b MemoryValidator) = None) \<and>
   (\<forall>v'. updateMetadata tm md (Device d :: 'b MemoryValidator) = Some v' \<longrightarrow>
       (\<exists>combined. combineDimensions (md_dimensions md) (kInitialDimensions d) = Some combined \<and>
          v' = Device (d\<lparr>mUpdatedDimensions := combined\<rparr>))) \<and>
   (logicalSize md = 0 \<longrightarrow>
       (updateMetadata tm md (Device d :: 'b MemoryValidator) \<noteq> None) =
         ((case operand md of None \<Rightarrow> True | Some op \<Rightarrow> sameOperandType op (kOperand d)) \<and>
          (md_dimensions md = [] \<or> isTensorType tm (type (kOperand d))) \<and>
          combineDimensions (md_dimensions md) (kInitialDimensions d) \<noteq> None)) \<and>
   (md_dimensions md = [] \<longrightarrow>
       (updateMetadata tm md (Device d :: 'b MemoryValidator) \<noteq> None) =
         ((case operand md of None \<Rightarrow> True | Some op \<Rightarrow> sameOperandType op (kOperand d)) \<and>
          (logicalSize md = 0 \<or>
           logicalSize md = getSizeOfData tm (type (kOperand d)) (kInitialDimensions d)))) \<and>
   (logicalSize md = 0 \<and> md_dimensions md = [] \<longrightarrow>
       updateMetadata tm md (Device d :: 'b MemoryValidator) =
         (if (case operand md of None \<Rightarrow> True | Some op \<Rightarrow> sameOperandType op (kOperand d))
          then Some (Device (d\<lparr>mUpdatedDimensions := kInitialDimensions d\<rparr>)) else None)) \<and>
   updateMetadata tm md (Sized kSize s :: 'b MemoryValidator) =
     (if logicalSize md = 0 \<or> logicalSize md = kSize then Some (Sized kSize s) else None) \<and>
   updateMetadata tm md (NonBlob s :: 'b MemoryValidator) = Some (NonBlob s) \<and>
   (updateMetadata tm md (v :: 'b MemoryValidator) \<noteq> None \<longrightarrow> updateMetadata tm (md\<lparr>logicalSize := 0\<rparr>) v \<noteq> None) \<and>
   (logicalSize md = 0 \<and> md_dimensions md = [] \<and> operand md = None \<longrightarrow>
       updateMetadata tm md v \<noteq> None)"
proof (intro conjI allI impI)
  fix op
  assume "operand md = Some op \<and> \<not> sameOperandType op (kOperand d)"
  then show "updateMetadata tm md (Device d) = None"
    by (simp add: updateMetadata_def Device_updateMetadata_def)
next
  assume "combineDimensions (md_dimensions md) (kInitialDimensions d) = None"
  then show "updateMetadata tm md (Device d) = None"
    by (simp add: updateMetadata_def Device_updateMetadata_def)
next
  fix v'
  assume "updateMetadata tm md (Device d) = Some v'"
  then show "\<exists>combined. combineDimensions (md_dimensions md) (kInitialDimensions d) = Some combined \<and>
          v' = Device (d\<lparr>mUpdatedDimensions := combined\<rparr>)"
    by (auto simp: updateMetadata_def Device_updateMetadata_def split: if_splits option.splits)
next
  assume "logicalSize md = 0"
  then show "(updateMetadata tm md (Device d) \<noteq> None) =
         ((case operand md of None \<Rightarrow> True | Some op \<Rightarrow> sameOperandType op (kOperand d)) \<and>
          (md_dimensions md = [] \<or> isTensorType tm (type (kOperand d))) \<and>
          combineDimensions (md_dimensions md) (kInitialDimensions d) \<noteq> None)"
    by (auto simp: updateMetadata_def Device_updateMetadata_def split: option.splits)
next
  assume "md_dimensions md = []"
  then show "(updateMetadata tm md (Device d) \<noteq> None) =
         ((case operand md of None \<Rightarrow> True | Some op \<Rightarrow> sameOperandType op (kOperand d)) \<and>
          (logicalSize md = 0 \<or>
           logicalSize md = getSizeOfData tm (type (kOperand d)) (kInitialDimensions d)))"
    by (auto simp: updateMetadata_def Device_updateMetadata_def combineDimensions_empty
        split: option.splits)
next
  assume "logicalSize md = 0 \<and> md_dimensions md = []"
  then show "updateMetadata tm md (Device d) =
         (if (case operand md of None \<Rightarrow> True | Some op \<Rightarrow> sameOperandType op (kOperand d))
          then Some (Device (d\<lparr>mUpdatedDimensions := kInitialDimensions d\<rparr>)) else None)"
    by (auto simp: updateMetadata_def Device_updateMetadata_def combineDimensions_empty
        split: option.splits)
next
  show "updateMetadata tm md (Sized kSize s) =
     (if logicalSize md = 0 \<or> logicalSize md = kSize then Some (Sized kSize s) else None)"
    by (simp add: updateMetadata_def)
next
  show "updateMetadata tm md (NonBlob s) = Some (NonBlob s)"
    by (simp add: updateMetadata_def)
next
  assume "updateMetadata tm md v \<noteq> None"
  then show "updateMetadata tm (md\<lparr>logicalSize := 0\<rparr>) v \<noteq> None"
    by (cases v)
       (auto simp: updateMetadata_def Device_updateMetadata_def split: if_splits option.splits)
next
  assume "logicalSize md = 0 \<and> md_dimensions md = [] \<and> operand md = None"
  then show "updateMetadata tm md v \<noteq> None"
    by (cases v)
       (auto simp: updateMetadata_def Device_updateMetadata_def combineDimensions_empty)
qed

theorem updateMetadata_contract_witness:
  "updateMetadata sampleTypeManager
     \<lparr>logicalSize = 0, md_dimensions = [], operand = Some ((sampleOperand [])\<lparr>type := 5\<rparr>)\<rparr>
     (Device sampleDeviceValidator :: unit MemoryValidator) = None \<and>
   updateMetadata sampleTypeManager
     \<lparr>logicalSize = 0, md_dimensions = [2, 4, 4, 3], operand = None\<rparr>
     (Device sampleDeviceValidator :: unit MemoryValidator) = None \<and>
   updateMetadata sampleTypeManager
     \<lparr>logicalSize = 0, md_dimensions = [], operand = None\<rparr>
     (Device sampleDeviceValidator :: unit MemoryValidator) =
       Some (Device (sampleDeviceValidator\<lparr>mUpdatedDimensions := [1, 4, 4, 3]\<rparr>)) \<and>
   updateMetadata sampleTypeManager
     \<lparr>logicalSize = 0, md_dimensions = [], operand = None\<rparr> (Sized 48 ()) =
       Some (Sized 48 ()) \<and>
   updateMetadata sampleTypeManager
     \<lparr>logicalSize = 192, md_dimensions = [0, 4, 4, 3], operand = None\<rparr>
     (Device sampleDeviceValidator :: unit MemoryValidator) =
       Some (Device (sampleDeviceValidator\<lparr>mUpdatedDimensions := [1, 4, 4, 3]\<rparr>)) \<and>
   updateMetadata sampleTypeManager
     \<lparr>logicalSize = 0, md_dimensions = [0, 4, 4, 3], operand = None\<rparr>
     (Device sampleDeviceValidator :: unit MemoryValidator) \<noteq> None \<and>
   updateMetadata sampleTypeManager
     \<lparr>logicalSize = 48, md_dimensions = [], operand = None\<rparr>
     (Device sampleDeviceValidator :: unit MemoryValidator) = None"
proof -
  let ?dev = "Device sampleDeviceValidator :: unit MemoryValidator"
  let ?conflict =
    "\<lparr>logicalSize = 0, md_dimensions = [], operand = Some ((sampleOperand [])\<lparr>type := 5\<rparr>)\<rparr>"
  let ?shape = "\<lparr>logicalSize = 0, md_dimensions = [2, 4, 4, 3], operand = None\<rparr>"
  let ?blank = "\<lparr>logicalSize = 0, md_dimensions = [], operand = None\<rparr>"
  let ?full = "\<lparr>logicalSize = 192, md_dimensions = [0, 4, 4, 3], operand = None\<rparr>"
  let ?sized = "\<lparr>logicalSize = 48, md_dimensions = [], operand = None\<rparr>"
  have "operand ?conflict = Some ((sampleOperand [])\<lparr>type := 5\<rparr>) \<and>
        \<not> sameOperandType ((sampleOperand [])\<lparr>type := 5\<rparr>) (kOperand sampleDeviceValidator)"
    by (simp add: sampleDeviceValidator_def sampleOperand_def sameOperandType_def)
  with updateMetadata_contract [where md = ?conflict and d = sampleDeviceValidator
      and tm = sampleTypeManager and kSize = 48 and s = "()" and v = ?dev]
  have r1: "updateMetadata sampleTypeManager ?conflict ?dev = None"
    by blast
  have "combineDimensions (md_dimensions ?shape) (kInitialDimensions sampleDeviceValidator) = None"
    by (simp add: sampleDeviceValidator_def combineDimensions_def)
  with updateMetadata_contract [where md = ?shape and d = sampleDeviceValidator
      and tm = sampleTypeManager and kSize = 48 and s = "()" and v = ?dev]
  have r2: "updateMetadata sampleTypeManager ?shape ?dev = None"
    by blast
  have blank: "logicalSize ?blank = 0 \<and> md_dimensions ?blank = [] \<and> operand ?blank = None"
    by simp
  have "updateMetadata sampleTypeManager ?blank ?dev =
      (if (case operand ?blank of None \<Rightarrow> True
           | Some op \<Rightarrow> sameOperandType op (kOperand sampleDeviceValidator))
       then Some (Device (sampleDeviceValidator
              \<lparr>mUpdatedDimensions := kInitialDimensions sampleDeviceValidator\<rparr>)) else None)"
    using updateMetadata_contract [where md = ?blank and d = sampleDeviceValidator
      and tm = sampleTypeManager and kSize = 48 and s = "()" and v = ?dev] blank
    by blast
  then have r3: "updateMetadata sampleTypeManager ?blank ?dev =
      Some (Device (sampleDeviceValidator\<lparr>mUpdatedDimensions := [1, 4, 4, 3]\<rparr>))"
    by (simp add: sampleDeviceValidator_def)
  have "updateMetadata sampleTypeManager ?blank (Sized 48 ()) =
      (if logicalSize ?blank = 0 \<or> logicalSize ?blank = 48 then Some (Sized 48 ()) else None)"
    using updateMetadata_contract [where md = ?blank and d = sampleDeviceValidator
      and tm = sampleTypeManager and kSize = 48 and s = "()" and v = ?dev]
    by blast
  then have r4: "updateMetadata sampleTypeManager ?blank (Sized 48 ()) = Some (Sized 48 ())"
    by simp
  have "updateMetadata sampleTypeManager ?full ?dev \<noteq> None"
    by (simp add: updateMetadata_def Device_updateMetadata_def sampleDeviceValidator_def
        sampleOperand_def sampleTypeManager_def combineDimensions_def)
  then obtain v' where acc: "updateMetadata sampleTypeManager ?full ?dev = Some v'"
    by blast
  have comb: "combineDimensions (md_dimensions ?full) (kInitialDimensions sampleDeviceValidator) =
      Some [1, 4, 4, 3]"
    by (simp add: sampleDeviceValidator_def combineDimensions_def)
  from updateMetadata_contract [where md = ?full and d = sampleDeviceValidator
      and tm = sampleTypeManager and kSize = 48 and s = "()" and v = ?dev] acc
  obtain combined where
    "combineDimensions (md_dimensions ?full) (kInitialDimensions sampleDeviceValidator) =
       Some combined"
    and "v' = Device (sampleDeviceValidator\<lparr>mUpdatedDimensions := combined\<rparr>)"
    by blast
  with comb acc
  have r5: "updateMetadata sampleTypeManager ?full ?dev =
      Some (Device (sampleDeviceValidator\<lparr>mUpdatedDimensions := [1, 4, 4, 3]\<rparr>))"
    by simp
  from acc have "updateMetadata sampleTypeManager ?full ?dev \<noteq> None"
    by simp
  with updateMetadata_contract [where md = ?full and d = sampleDeviceValidator
      and tm = sampleTypeManager and kSize = 48 and s = "()" and v = ?dev]
  have "updateMetadata sampleTypeManager (?full\<lparr>logicalSize := 0\<rparr>) ?dev \<noteq> None"
    by blast
  then have r6: "updateMetadata sampleTypeManager
      \<lparr>logicalSize = 0, md_dimensions = [0, 4, 4, 3], operand = None\<rparr> ?dev \<noteq> None"
    by simp
  have "md_dimensions ?sized = [] \<and> operand ?sized = None \<and> logicalSize ?sized \<noteq> 0 \<and>
      logicalSize ?sized \<noteq> getSizeOfData sampleTypeManager (type (kOperand sampleDeviceValidator))
        (kInitialDimensions sampleDeviceValidator)"
    by (simp add: sampleDeviceValidator_def sampleOperand_def sampleTypeManager_def)
  with updateMetadata_contract [where md = ?sized and d = sampleDeviceValidator
      and tm = sampleTypeManager and kSize = 48 and s = "()" and v = ?dev]
  have "\<not> (updateMetadata sampleTypeManager ?sized ?dev \<noteq> None)"
    by simp
  then have r7: "updateMetadata sampleTypeManager ?sized ?dev = None"
    by simp
  from r1 r2 r3 r4 r5 r6 r7 show ?thesis by simp
qed

text \<open>
  The claim as stated (metadata with a zero logical size or with empty dimensions is
  always accepted) fails for the Device-role validator of shape [1,4,4,3] and 192
  bytes: metadata with logical size 0 and dimensions [2,4,4,3] is rejected by the
  combination, and metadata with empty dimensions and logical size 48 is rejected by
  the size comparison.
\<close>

theorem updateMetadata_counterexample:
  "updateMetadata sampleTypeManager
     \<lparr>logicalSize = 0, md_dimensions = [2, 4, 4, 3], operand = None\<rparr>
     (Device sampleDeviceValidator :: unit MemoryValidator) = None \<and>
   updateMetadata sampleTypeManager
     \<lparr>logicalSize = 48, md_dimensions = [], operand = None\<rparr>
     (Device sampleDeviceValidator :: unit MemoryValidator) = None"
  by (simp add: updateMetadata_def Device_updateMetadata_def sampleDeviceValidator_def
      sampleOperand_def sampleTypeManager_def combineDimensions_def)

subsection \<open>Copying between memory objects\<close>

text \<open>
  What \<open>copy a a\<close> does: the test of line 263 returns \<open>ANEURALNETWORKS_NO_ERROR\<close> before
  the source is looked at, and line 295 then calls \<open>setInitialized True\<close> on the validator
  of \<open>a\<close>; nothing else is written.
\<close>

lemma copy_same_object:
  assumes "mValidator (h a) = Some v"
  shows "copy E tm B h a a =
           Some (ANEURALNETWORKS_NO_ERROR,
                 h(a := (h a)\<lparr>mValidator := Some (setInitialized B True v)\<rparr>))"
  using assms by (simp add: copy_def copyInternal_def)

text \<open>
  C1. Claim: for every memory object \<open>a\<close>, \<open>copy a a\<close> returns \<open>ANEURALNETWORKS_NO_ERROR\<close>
  and leaves the validator state of \<open>a\<close> unchanged: \<open>isInitialized\<close> and the resolved
  dimensions are the same after the call as before. The code breaks this for a
  descriptor-made memory that has never been written (address 0 of the sample store):
  it is uninitialized before the call, the call returns \<open>ANEURALNETWORKS_NO_ERROR\<close>, and
  it reports initialized afterwards, with its dimensions unchanged. On the path for
  distinct objects the same source is refused: copying it to the host memory at
  address 1 returns \<open>ANEURALNETWORKS_BAD_DATA\<close>.
\<close>

theorem copy_self_marks_initialized:
  "map_option fst (copy sampleExternals sampleTypeManager sampleBase sampleStore 0 0)
     = Some ANEURALNETWORKS_NO_ERROR \<and>
   mValidator (sampleStore 0) = Some (Device sampleDeviceValidator) \<and>
   \<not> isInitialized sampleBase (Device sampleDeviceValidator) \<and>
   mValidator (snd (the (copy sampleExternals sampleTypeManager sampleBase sampleStore 0 0)) 0)
     = Some (Device (sampleDeviceValidator\<lparr>mInitialized := True\<rparr>)) \<and>
   isInitialized sampleBase (Device (sampleDeviceValidator\<lparr>mInitialized := True\<rparr>)) \<and>
   map_option fst (copy sampleExternals sampleTypeManager sampleBase sampleStore 0 1)
     = Some ANEURALNETWORKS_BAD_DATA"
  by (simp add: copy_def copyInternal_def setInitialized_def isInitialized_def sampleStore_def
      sampleDeviceMemory_def sampleHostMemory_def sampleDeviceValidator_def)

theorem copy_self_marks_initialized_witness:
  "map_option fst (copy sampleExternals sampleTypeManager sampleBase sampleStore 0 0)
     = Some ANEURALNETWORKS_NO_ERROR"
  using copy_self_marks_initialized by simp

lemma copyInternal_dst_validator:
  assumes "copyInternal E tm B h src dst = Some (n, h')" and "src \<noteq> dst"
    and "mValidator (h dst) = Some (Device d)"
  shows "\<exists>d'. mValidator (h' dst) = Some (Device d')"
  using assms
  by (auto simp: copyInternal_def updateMetadata_def Let_def
      split: if_splits option.splits)

lemma copyInternal_dst_Sized:
  assumes "copyInternal E tm B h src dst = Some (n, h')" and "src \<noteq> dst"
    and "mValidator (h dst) = Some (Sized kSize s)"
  shows "mValidator (h' dst) = Some (Sized kSize s)"
  using assms
  by (auto simp: copyInternal_def updateMetadata_def Let_def
      split: if_splits option.splits)

lemma copyInternal_dst_NonBlob:
  assumes "copyInternal E tm B h src dst = Some (n, h')" and "src \<noteq> dst"
    and "mValidator (h dst) = Some (NonBlob s)"
  shows "mValidator (h' dst) = Some (NonBlob s)"
  using assms
  by (auto simp: copyInternal_def updateMetadata_def Let_def
      split: if_splits option.splits)

text \<open>
  C2 (as amended). For distinct memory objects \<open>src\<close> and \<open>dst\<close>: when the validator of
  \<open>src\<close> reports uninitialized, \<open>copy\<close> returns \<open>ANEURALNETWORKS_BAD_DATA\<close>; and whenever
  \<open>copy\<close> returns a failure code, the last thing done to the validator of \<open>dst\<close> is
  \<open>setInitialized False\<close>. A Device-role \<open>dst\<close> is uninitialized afterwards, even if it
  was initialized before the call. A Sized or non-BLOB \<open>dst\<close> keeps its validator but
  for the inherited \<open>setInitialized False\<close> applied to its base state, so it reports
  whatever the inherited \<open>isInitialized\<close> reports then (which need not be
  uninitialized).
\<close>

theorem copy_failure:
  "(src \<noteq> dst \<and> mValidator (h src) = Some sv \<and> \<not> isInitialized B sv \<and>
    mValidator (h dst) = Some dv \<longrightarrow>
      copy E tm B h src dst =
        Some (ANEURALNETWORKS_BAD_DATA,
              h(dst := (h dst)\<lparr>mValidator := Some (setInitialized B False dv)\<rparr>))) \<and>
   (src \<noteq> dst \<and> copy E tm B h src dst = Some (n, h') \<and> n \<noteq> ANEURALNETWORKS_NO_ERROR \<longrightarrow>
      (\<exists>v. mValidator (h' dst) = Some (setInitialized B False v)) \<and>
      (\<forall>d. mValidator (h dst) = Some (Device d) \<longrightarrow>
         (\<exists>d'. mValidator (h' dst) = Some (Device d') \<and> \<not> mInitialized d' \<and>
               \<not> isInitialized B (Device d'))) \<and>
      (\<forall>kSize s. mValidator (h dst) = Some (Sized kSize s) \<longrightarrow>
         mValidator (h' dst) = Some (Sized kSize (base_setInitialized B False s))) \<and>
      (\<forall>s. mValidator (h dst) = Some (NonBlob s) \<longrightarrow>
         mValidator (h' dst) = Some (NonBlob (base_setInitialized B False s))))"
proof (intro conjI impI)
  assume "src \<noteq> dst \<and> mValidator (h src) = Some sv \<and> \<not> isInitialized B sv \<and>
    mValidator (h dst) = Some dv"
  then show "copy E tm B h src dst =
        Some (ANEURALNETWORKS_BAD_DATA,
              h(dst := (h dst)\<lparr>mValidator := Some (setInitialized B False dv)\<rparr>))"
    by (simp add: copy_def copyInternal_def)
next
  assume a: "src \<noteq> dst \<and> copy E tm B h src dst = Some (n, h') \<and> n \<noteq> ANEURALNETWORKS_NO_ERROR"
  then obtain h1 v1 where ci: "copyInternal E tm B h src dst = Some (n, h1)"
    and v1: "mValidator (h1 dst) = Some v1"
    and h': "h' = h1(dst := (h1 dst)\<lparr>mValidator := Some (setInitialized B False v1)\<rparr>)"
    by (auto simp: copy_def split: option.splits prod.splits)
  from h' show "\<exists>v. mValidator (h' dst) = Some (setInitialized B False v)"
    by auto
  show "\<forall>d. mValidator (h dst) = Some (Device d) \<longrightarrow>
         (\<exists>d'. mValidator (h' dst) = Some (Device d') \<and> \<not> mInitialized d' \<and>
               \<not> isInitialized B (Device d'))"
  proof (intro allI impI)
    fix d
    assume "mValidator (h dst) = Some (Device d)"
    with ci a obtain d1 where "mValidator (h1 dst) = Some (Device d1)"
      using copyInternal_dst_validator by blast
    with v1 h' show "\<exists>d'. mValidator (h' dst) = Some (Device d') \<and> \<not> mInitialized d' \<and>
               \<not> isInitialized B (Device d')"
      by (auto simp: setInitialized_def isInitialized_def)
  qed
  show "\<forall>kSize s. mValidator (h dst) = Some (Sized kSize s) \<longrightarrow>
         mValidator (h' dst) = Some (Sized kSize (base_setInitialized B False s))"
  proof (intro allI impI)
    fix kSize s
    assume sized: "mValidator (h dst) = Some (Sized kSize s)"
    from a have ne: "src \<noteq> dst" by simp
    have "mValidator (h1 dst) = Some (Sized kSize s)"
      by (rule copyInternal_dst_Sized [where h = h and dst = dst, OF ci ne sized])
    with v1 h' show "mValidator (h' dst) = Some (Sized kSize (base_setInitialized B False s))"
      by (auto simp: setInitialized_def)
  qed
  show "\<forall>s. mValidator (h dst) = Some (NonBlob s) \<longrightarrow>
         mValidator (h' dst) = Some (NonBlob (base_setInitialized B False s))"
  proof (intro allI impI)
    fix s
    assume nonblob: "mValidator (h dst) = Some (NonBlob s)"
    from a have ne: "src \<noteq> dst" by simp
    have "mValidator (h1 dst) = Some (NonBlob s)"
      by (rule copyInternal_dst_NonBlob [where h = h and dst = dst, OF ci ne nonblob])
    with v1 h' show "mValidator (h' dst) = Some (NonBlob (base_setInitialized B False s))"
      by (auto simp: setInitialized_def)
  qed
qed

theorem copy_failure_witness:
  "copy sampleExternals sampleTypeManager sampleBase sampleStore 0 1 =
     Some (ANEURALNETWORKS_BAD_DATA,
           sampleStore(1 := (sampleStore 1)\<lparr>mValidator :=
             Some (setInitialized sampleBase False (Sized 48 ()))\<rparr>)) \<and>
   (\<exists>h'. copy sampleExternals sampleTypeManager sampleBase sampleStore 0 1 =
            Some (ANEURALNETWORKS_BAD_DATA, h') \<and>
          mValidator (h' 1) = Some (Sized 48 (base_setInitialized sampleBase False ()))) \<and>
   (\<exists>h'. copy sampleExternals sampleTypeManager sampleBase sampleStore 1 2 =
            Some (ANEURALNETWORKS_BAD_DATA, h') \<and>
          mInitialized (sampleDeviceValidator\<lparr>mInitialized := True\<rparr>) \<and>
          (\<exists>d'. mValidator (h' 2) = Some (Device d') \<and> \<not> mInitialized d'))"
proof -
  have pre: "(0::nat) \<noteq> 1 \<and> mValidator (sampleStore 0) = Some (Device sampleDeviceValidator) \<and>
      \<not> isInitialized sampleBase (Device sampleDeviceValidator) \<and>
      mValidator (sampleStore 1) = Some (Sized 48 ())"
    by (simp add: sampleStore_def sampleDeviceMemory_def sampleHostMemory_def
        sampleDeviceValidator_def isInitialized_def)
  from copy_failure [of 0 1 sampleStore "Device sampleDeviceValidator" sampleBase "Sized 48 ()"
      sampleExternals sampleTypeManager] pre
  have first: "copy sampleExternals sampleTypeManager sampleBase sampleStore 0 1 =
     Some (ANEURALNETWORKS_BAD_DATA,
           sampleStore(1 := (sampleStore 1)\<lparr>mValidator :=
             Some (setInitialized sampleBase False (Sized 48 ()))\<rparr>))"
    by blast
  then obtain h0 where run0: "copy sampleExternals sampleTypeManager sampleBase sampleStore 0 1 =
            Some (ANEURALNETWORKS_BAD_DATA, h0)"
    by blast
  from pre have host: "mValidator (sampleStore 1) = Some (Sized 48 ())"
    by simp
  from copy_failure [of 0 1 sampleStore sv sampleBase dv sampleExternals sampleTypeManager
      ANEURALNETWORKS_BAD_DATA h0 for sv dv] run0 host
  have sized: "mValidator (h0 1) = Some (Sized 48 (base_setInitialized sampleBase False ()))"
    by simp
  have "\<exists>h'. copy sampleExternals sampleTypeManager sampleBase sampleStore 1 2 =
            Some (ANEURALNETWORKS_BAD_DATA, h')"
    by (simp add: copy_def copyInternal_def sampleStore_def sampleHostMemory_def
        sampleDeviceMemory_def sampleDeviceValidator_def sampleBase_def isInitialized_def
        getMetadata_def updateMetadata_def Device_updateMetadata_def combineDimensions_def
        sampleTypeManager_def sampleOperand_def)
  then obtain h' where run: "copy sampleExternals sampleTypeManager sampleBase sampleStore 1 2 =
            Some (ANEURALNETWORKS_BAD_DATA, h')"
    by blast
  have dst: "mValidator (sampleStore 2) =
      Some (Device (sampleDeviceValidator\<lparr>mInitialized := True\<rparr>))"
    by (simp add: sampleStore_def sampleDeviceMemory_def)
  from copy_failure [of 1 2 sampleStore sv sampleBase dv sampleExternals sampleTypeManager
      ANEURALNETWORKS_BAD_DATA h' for sv dv] run dst
  have "\<exists>d'. mValidator (h' 2) = Some (Device d') \<and> \<not> mInitialized d'"
    by auto
  with first run0 sized run show ?thesis by simp
qed

text \<open>
  The claim as stated (after every failing copy \<open>dst\<close> is left uninitialized) fails
  for a destination whose validator does not override the inherited methods, when the
  inherited methods keep no state and always report initialized: copying the
  never-written device memory (address 0) to the host memory (address 1) returns
  \<open>ANEURALNETWORKS_BAD_DATA\<close>, and the host memory reports initialized before and after.
\<close>

theorem copy_failure_counterexample:
  "map_option fst (copy sampleExternals sampleTypeManager sampleBase sampleStore 0 1)
     = Some ANEURALNETWORKS_BAD_DATA \<and>
   isInitialized sampleBase (the (mValidator (sampleStore 1))) \<and>
   isInitialized sampleBase
     (the (mValidator
        (snd (the (copy sampleExternals sampleTypeManager sampleBase sampleStore 0 1)) 1)))"
  by (simp add: copy_def copyInternal_def setInitialized_def isInitialized_def sampleStore_def
      sampleDeviceMemory_def sampleHostMemory_def sampleDeviceValidator_def sampleBase_def)

subsection \<open>Allocating from a descriptor\<close>

lemma MemoryAshmem_create_cases:
  "MemoryAshmem_create E B sz = (ANEURALNETWORKS_OUT_OF_MEMORY, None) \<or>
   (\<exists>m. MemoryAshmem_create E B sz = (ANEURALNETWORKS_NO_ERROR, Some m))"
  by (simp add: MemoryAshmem_create_def Let_def)

text \<open>
  C4. \<open>allocate\<close> returns \<open>ANEURALNETWORKS_BAD_STATE\<close> and no object, without any
  allocation call, if the descriptor is not finished; it returns
  \<open>ANEURALNETWORKS_OP_FAILED\<close> and no object, again without any allocation call, when
  the byte size computed from the operand type and the accumulated dimensions is zero;
  and with a non-zero size, when no device allocator was selected or the device
  allocation fails, it returns after exactly one call of the host shared-memory
  allocation (preceded by the one device call, if a device was selected): nothing is
  retried.
\<close>

theorem allocate_contract:
  "(\<not> mFinished b \<longrightarrow> allocate E tm B b = Some ((ANEURALNETWORKS_BAD_STATE, None), [])) \<and>
   (mFinished b \<and> mOperand b = Some opnd \<and>
    getSizeOfData tm (type opnd) (desc_dimensions (mDesc b)) = 0 \<longrightarrow>
      allocate E tm B b = Some ((ANEURALNETWORKS_OP_FAILED, None), [])) \<and>
   (mFinished b \<and> mOperand b = Some opnd \<and>
    getSizeOfData tm (type opnd) (desc_dimensions (mDesc b)) = sz \<and> sz \<noteq> 0 \<and>
    mAllocator b = None \<longrightarrow>
      (\<exists>r. allocate E tm B b = Some (r, [AshmemCreate sz]))) \<and>
   (mFinished b \<and> mOperand b = Some opnd \<and>
    getSizeOfData tm (type opnd) (desc_dimensions (mDesc b)) = sz \<and> sz \<noteq> 0 \<and>
    mAllocator b = Some device \<and>
    fst (Device_allocate E device (mDesc b)) \<noteq> ANEURALNETWORKS_NO_ERROR \<longrightarrow>
      (\<exists>r. allocate E tm B b = Some (r, [DeviceAllocate device, AshmemCreate sz])))"
proof (intro conjI impI)
  assume "\<not> mFinished b"
  then show "allocate E tm B b = Some ((ANEURALNETWORKS_BAD_STATE, None), [])"
    by (simp add: allocate_def)
next
  assume "mFinished b \<and> mOperand b = Some opnd \<and>
    getSizeOfData tm (type opnd) (desc_dimensions (mDesc b)) = 0"
  then show "allocate E tm B b = Some ((ANEURALNETWORKS_OP_FAILED, None), [])"
    by (simp add: allocate_def)
next
  assume a: "mFinished b \<and> mOperand b = Some opnd \<and>
    getSizeOfData tm (type opnd) (desc_dimensions (mDesc b)) = sz \<and> sz \<noteq> 0 \<and>
    mAllocator b = None"
  from MemoryAshmem_create_cases [of E B sz] a
  show "\<exists>r. allocate E tm B b = Some (r, [AshmemCreate sz])"
    by (auto simp: allocate_def)
next
  assume a: "mFinished b \<and> mOperand b = Some opnd \<and>
    getSizeOfData tm (type opnd) (desc_dimensions (mDesc b)) = sz \<and> sz \<noteq> 0 \<and>
    mAllocator b = Some device \<and>
    fst (Device_allocate E device (mDesc b)) \<noteq> ANEURALNETWORKS_NO_ERROR"
  from MemoryAshmem_create_cases [of E B sz] a
  show "\<exists>r. allocate E tm B b = Some (r, [DeviceAllocate device, AshmemCreate sz])"
    by (auto simp: allocate_def split: prod.splits)
qed

theorem allocate_contract_witness:
  "allocate sampleExternals sampleTypeManager sampleBase newMemoryBuilder =
     Some ((ANEURALNETWORKS_BAD_STATE, None), []) \<and>
   allocate sampleExternals sampleTypeManager sampleBase (sampleFinishedBuilder [0, 4, 4, 3] None) =
     Some ((ANEURALNETWORKS_OP_FAILED, None), []) \<and>
   (\<exists>r. allocate sampleExternals sampleTypeManager sampleBase
           (sampleFinishedBuilder [1, 4, 4, 3] None) = Some (r, [AshmemCreate 192])) \<and>
   (\<exists>r. allocate sampleExternals sampleTypeManager sampleBase
           (sampleFinishedBuilder [1, 4, 4, 3] (Some 1)) =
             Some (r, [DeviceAllocate 1, AshmemCreate 192]))"
proof -
  have unfinished: "\<not> mFinished newMemoryBuilder"
    by (simp add: newMemoryBuilder_def)
  from allocate_contract [of newMemoryBuilder sampleExternals sampleTypeManager sampleBase]
    unfinished
  have r1: "allocate sampleExternals sampleTypeManager sampleBase newMemoryBuilder =
     Some ((ANEURALNETWORKS_BAD_STATE, None), [])"
    by blast
  have unknown: "mFinished (sampleFinishedBuilder [0, 4, 4, 3] None) \<and>
      mOperand (sampleFinishedBuilder [0, 4, 4, 3] None) = Some (sampleOperand [0, 4, 4, 3]) \<and>
      getSizeOfData sampleTypeManager (type (sampleOperand [0, 4, 4, 3]))
        (desc_dimensions (mDesc (sampleFinishedBuilder [0, 4, 4, 3] None))) = 0"
    by (simp add: sampleFinishedBuilder_def sampleOperand_def sampleTypeManager_def)
  from allocate_contract [of "sampleFinishedBuilder [0, 4, 4, 3] None" sampleExternals
      sampleTypeManager sampleBase "sampleOperand [0, 4, 4, 3]"] unknown
  have r2: "allocate sampleExternals sampleTypeManager sampleBase
      (sampleFinishedBuilder [0, 4, 4, 3] None) = Some ((ANEURALNETWORKS_OP_FAILED, None), [])"
    by blast
  have host: "mFinished (sampleFinishedBuilder [1, 4, 4, 3] None) \<and>
      mOperand (sampleFinishedBuilder [1, 4, 4, 3] None) = Some (sampleOperand [1, 4, 4, 3]) \<and>
      getSizeOfData sampleTypeManager (type (sampleOperand [1, 4, 4, 3]))
        (desc_dimensions (mDesc (sampleFinishedBuilder [1, 4, 4, 3] None))) = 192 \<and>
      (192 :: u32) \<noteq> 0 \<and> mAllocator (sampleFinishedBuilder [1, 4, 4, 3] None) = None"
    by (simp add: sampleFinishedBuilder_def sampleOperand_def sampleTypeManager_def)
  from allocate_contract [of "sampleFinishedBuilder [1, 4, 4, 3] None" sampleExternals
      sampleTypeManager sampleBase "sampleOperand [1, 4, 4, 3]" 192] host
  have r3: "\<exists>r. allocate sampleExternals sampleTypeManager sampleBase
      (sampleFinishedBuilder [1, 4, 4, 3] None) = Some (r, [AshmemCreate 192])"
    by blast
  have device: "mFinished (sampleFinishedBuilder [1, 4, 4, 3] (Some 1)) \<and>
      mOperand (sampleFinishedBuilder [1, 4, 4, 3] (Some 1)) = Some (sampleOperand [1, 4, 4, 3]) \<and>
      getSizeOfData sampleTypeManager (type (sampleOperand [1, 4, 4, 3]))
        (desc_dimensions (mDesc (sampleFinishedBuilder [1, 4, 4, 3] (Some 1)))) = 192 \<and>
      (192 :: u32) \<noteq> 0 \<and> mAllocator (sampleFinishedBuilder [1, 4, 4, 3] (Some 1)) = Some 1 \<and>
      fst (Device_allocate sampleExternals 1 (mDesc (sampleFinishedBuilder [1, 4, 4, 3] (Some 1))))
        \<noteq> ANEURALNETWORKS_NO_ERROR"
    by (simp add: sampleFinishedBuilder_def sampleOperand_def sampleTypeManager_def
        sampleExternals_def)
  from allocate_contract [of "sampleFinishedBuilder [1, 4, 4, 3] (Some 1)" sampleExternals
      sampleTypeManager sampleBase "sampleOperand [1, 4, 4, 3]" 192 1] device
  have r4: "\<exists>r. allocate sampleExternals sampleTypeManager sampleBase
      (sampleFinishedBuilder [1, 4, 4, 3] (Some 1)) = Some (r, [DeviceAllocate 1, AshmemCreate 192])"
    by blast
  from r1 r2 r3 r4 show ?thesis by blast
qed

subsection \<open>Descriptors whose roles span several devices\<close>

text \<open>
  While a descriptor is being built (by any sequence of \<open>addRole\<close> and \<open>setDimensions\<close>
  calls, failed ones included) it is not finished, it has prepared models only if it
  has roles, and it has an operand if it has roles.
\<close>

lemma addRole_invariant:
  assumes "addRole E tm b c io i f = Some (n, b')"
    and "\<not> mFinished b \<and> (mRoles b = {} \<longrightarrow> preparedModels (mDesc b) = []) \<and>
         (mRoles b \<noteq> {} \<longrightarrow> mOperand b \<noteq> None)"
  shows "\<not> mFinished b' \<and> (mRoles b' = {} \<longrightarrow> preparedModels (mDesc b') = []) \<and>
         (mRoles b' \<noteq> {} \<longrightarrow> mOperand b' \<noteq> None)"
  using assms
  by (auto simp: addRole_def badState_def Let_def split: if_splits option.splits prod.splits)

lemma setDimensions_invariant:
  assumes "\<not> mFinished b \<and> (mRoles b = {} \<longrightarrow> preparedModels (mDesc b) = []) \<and>
         (mRoles b \<noteq> {} \<longrightarrow> mOperand b \<noteq> None)"
  shows "\<not> mFinished (snd (setDimensions tm b dims)) \<and>
         (mRoles (snd (setDimensions tm b dims)) = {} \<longrightarrow>
            preparedModels (mDesc (snd (setDimensions tm b dims))) = []) \<and>
         (mRoles (snd (setDimensions tm b dims)) \<noteq> {} \<longrightarrow>
            mOperand (snd (setDimensions tm b dims)) \<noteq> None)"
  using assms
  by (auto simp: setDimensions_def badState_def split: if_splits option.splits)

lemma runCalls_invariant:
  assumes "runCalls E tm b calls = Some b'"
    and "\<not> mFinished b \<and> (mRoles b = {} \<longrightarrow> preparedModels (mDesc b) = []) \<and>
         (mRoles b \<noteq> {} \<longrightarrow> mOperand b \<noteq> None)"
  shows "\<not> mFinished b' \<and> (mRoles b' = {} \<longrightarrow> preparedModels (mDesc b') = []) \<and>
         (mRoles b' \<noteq> {} \<longrightarrow> mOperand b' \<noteq> None)"
  using assms
proof (induction calls arbitrary: b)
  case Nil
  then show ?case by simp
next
  case (Cons call calls)
  show ?case
  proof (cases call)
    case (AddRole c io i f)
    with Cons.prems(1) obtain n b1 where
      step: "addRole E tm b c io i f = Some (n, b1)" and rest: "runCalls E tm b1 calls = Some b'"
      by (auto split: option.splits)
    from addRole_invariant [OF step Cons.prems(2)] Cons.IH [OF rest]
    show ?thesis by blast
  next
    case (SetDimensions dims)
    with Cons.prems(1) have rest: "runCalls E tm (snd (setDimensions tm b dims)) calls = Some b'"
      by simp
    from setDimensions_invariant [OF Cons.prems(2)] Cons.IH [OF rest]
    show ?thesis by blast
  qed
qed

text \<open>
  The selection loop: once a device is held, a prepared model on another device makes
  the loop return the null pointer; so do two prepared models on distinct devices
  anywhere in the list.
\<close>

lemma selectLoop_mismatch:
  assumes "\<exists>p \<in> set pms. getDevice E p \<noteq> a"
  shows "selectLoop E (Some a) pms = Inl ()"
  using assms by (induction pms) auto

lemma selectLoop_two_devices:
  assumes "p \<in> set pms" and "q \<in> set pms" and "getDevice E p \<noteq> getDevice E q"
  shows "selectLoop E None pms = Inl ()"
proof (cases pms)
  case Nil
  with assms show ?thesis by simp
next
  case (Cons x rest)
  have "\<exists>r \<in> set rest. getDevice E r \<noteq> getDevice E x"
  proof (cases "getDevice E p = getDevice E x")
    case True
    with assms Cons have "q \<in> set rest" "getDevice E q \<noteq> getDevice E x" by auto
    then show ?thesis by blast
  next
    case False
    with assms Cons have "p \<in> set rest" by auto
    with False show ?thesis by blast
  qed
  with Cons show ?thesis
    by (simp add: selectLoop_mismatch)
qed

text \<open>
  C3 (as amended). For every descriptor built from a fresh one by \<open>addRole\<close> and
  \<open>setDimensions\<close> calls whose prepared models lie on two or more distinct devices,
  \<open>finish\<close> returns \<open>ANEURALNETWORKS_NO_ERROR\<close> with no device allocator selected, and
  every \<open>allocate\<close> on the finished descriptor calls no device allocator: when the
  computed byte size is not zero it makes exactly one call, the host shared-memory
  allocation; when the size is zero (a dimension or the rank still unknown) it
  returns \<open>ANEURALNETWORKS_OP_FAILED\<close> without calling any allocation.
\<close>

theorem finish_two_devices:
  assumes "runCalls E tm newMemoryBuilder calls = Some b"
    and "p \<in> set (preparedModels (mDesc b))" and "q \<in> set (preparedModels (mDesc b))"
    and "getDevice E p \<noteq> getDevice E q"
  shows "\<exists>opnd. mOperand b = Some opnd \<and>
           finish E b = Some (ANEURALNETWORKS_NO_ERROR, b\<lparr>mAllocator := None, mFinished := True\<rparr>) \<and>
           (getSizeOfData tm (type opnd) (desc_dimensions (mDesc b)) = 0 \<longrightarrow>
              allocate E tm B (b\<lparr>mAllocator := None, mFinished := True\<rparr>) =
                Some ((ANEURALNETWORKS_OP_FAILED, None), [])) \<and>
           (getSizeOfData tm (type opnd) (desc_dimensions (mDesc b)) \<noteq> 0 \<longrightarrow>
              (\<exists>r. allocate E tm B (b\<lparr>mAllocator := None, mFinished := True\<rparr>) =
                 Some (r, [AshmemCreate (getSizeOfData tm (type opnd) (desc_dimensions (mDesc b)))])))"
proof -
  have "\<not> mFinished newMemoryBuilder \<and>
        (mRoles newMemoryBuilder = {} \<longrightarrow> preparedModels (mDesc newMemoryBuilder) = []) \<and>
        (mRoles newMemoryBuilder \<noteq> {} \<longrightarrow> mOperand newMemoryBuilder \<noteq> None)"
    by (simp add: newMemoryBuilder_def)
  from runCalls_invariant [OF assms(1) this] assms(2)
  have nf: "\<not> mFinished b" and roles: "mRoles b \<noteq> {}" and "mOperand b \<noteq> None"
    by auto
  then obtain opnd where opnd: "mOperand b = Some opnd" by auto
  have sel: "selectDeviceMemoryAllocator E (mDesc b) = Some None"
    using selectLoop_two_devices [OF assms(2) assms(3) assms(4)]
    by (simp add: selectDeviceMemoryAllocator_def)
  have fin: "finish E b = Some (ANEURALNETWORKS_NO_ERROR, b\<lparr>mAllocator := None, mFinished := True\<rparr>)"
    using nf roles opnd sel by (simp add: finish_def badState_def)
  have zero: "getSizeOfData tm (type opnd) (desc_dimensions (mDesc b)) = 0 \<longrightarrow>
      allocate E tm B (b\<lparr>mAllocator := None, mFinished := True\<rparr>) =
        Some ((ANEURALNETWORKS_OP_FAILED, None), [])"
    using opnd by (simp add: allocate_def)
  have nonzero: "getSizeOfData tm (type opnd) (desc_dimensions (mDesc b)) \<noteq> 0 \<longrightarrow>
      (\<exists>r. allocate E tm B (b\<lparr>mAllocator := None, mFinished := True\<rparr>) =
         Some (r, [AshmemCreate (getSizeOfData tm (type opnd) (desc_dimensions (mDesc b)))]))"
    using opnd
      MemoryAshmem_create_cases [of E B "getSizeOfData tm (type opnd) (desc_dimensions (mDesc b))"]
    by (auto simp: allocate_def)
  from opnd fin zero nonzero show ?thesis by blast
qed

lemma sample_two_roles:
  "\<exists>b. runCalls sampleExternals sampleTypeManager newMemoryBuilder
          [AddRole sampleCompilation INPUT 0 (Finite 1),
           AddRole sampleCompilation OUTPUT 0 (Finite 1)] = Some b \<and>
        preparedModels (mDesc b) = [10, 20] \<and> desc_dimensions (mDesc b) = [1, 4, 4, 3] \<and>
        mOperand b = Some (sampleOperand [0, 4, 4, 3])"
  by (simp add: addRole_def badState_def newMemoryBuilder_def sampleCompilation_def
      sampleTypeManager_def sampleOperand_def combineDimensions_def float_gt_def
      sameOperandType_def float_eq_def sampleExternals_def)

lemma sample_two_roles_unknown:
  "\<exists>b. runCalls sampleExternals sampleTypeManager newMemoryBuilder
          [AddRole sampleCompilationUnknown INPUT 0 (Finite 1),
           AddRole sampleCompilationUnknown OUTPUT 0 (Finite 1)] = Some b \<and>
        preparedModels (mDesc b) = [10, 20] \<and> desc_dimensions (mDesc b) = [0, 4, 4, 3] \<and>
        mOperand b = Some (sampleOperand [0, 4, 4, 3])"
  by (simp add: addRole_def badState_def newMemoryBuilder_def sampleCompilationUnknown_def
      sampleTypeManager_def sampleOperand_def combineDimensions_def float_gt_def
      sameOperandType_def float_eq_def sampleExternals_def)

theorem finish_two_devices_witness:
  "(\<exists>b. runCalls sampleExternals sampleTypeManager newMemoryBuilder
          [AddRole sampleCompilation INPUT 0 (Finite 1),
           AddRole sampleCompilation OUTPUT 0 (Finite 1)] = Some b \<and>
        preparedModels (mDesc b) = [10, 20] \<and>
        getDevice sampleExternals 10 \<noteq> getDevice sampleExternals 20 \<and>
        finish sampleExternals b =
          Some (ANEURALNETWORKS_NO_ERROR, b\<lparr>mAllocator := None, mFinished := True\<rparr>) \<and>
        (\<exists>r. allocate sampleExternals sampleTypeManager sampleBase
                (b\<lparr>mAllocator := None, mFinished := True\<rparr>) = Some (r, [AshmemCreate 192]))) \<and>
   (\<exists>b. runCalls sampleExternals sampleTypeManager newMemoryBuilder
          [AddRole sampleCompilationUnknown INPUT 0 (Finite 1),
           AddRole sampleCompilationUnknown OUTPUT 0 (Finite 1)] = Some b \<and>
        preparedModels (mDesc b) = [10, 20] \<and>
        finish sampleExternals b =
          Some (ANEURALNETWORKS_NO_ERROR, b\<lparr>mAllocator := None, mFinished := True\<rparr>) \<and>
        allocate sampleExternals sampleTypeManager sampleBase
          (b\<lparr>mAllocator := None, mFinished := True\<rparr>) =
            Some ((ANEURALNETWORKS_OP_FAILED, None), []))"
proof (rule conjI)
  have dev: "getDevice sampleExternals 10 \<noteq> getDevice sampleExternals 20"
    by (simp add: sampleExternals_def)
  from sample_two_roles_unknown obtain b where
    run: "runCalls sampleExternals sampleTypeManager newMemoryBuilder
          [AddRole sampleCompilationUnknown INPUT 0 (Finite 1),
           AddRole sampleCompilationUnknown OUTPUT 0 (Finite 1)] = Some b"
    and pms: "preparedModels (mDesc b) = [10, 20]"
    and dims: "desc_dimensions (mDesc b) = [0, 4, 4, 3]"
    and opnd: "mOperand b = Some (sampleOperand [0, 4, 4, 3])"
    by blast
  have p: "10 \<in> set (preparedModels (mDesc b))" and q: "20 \<in> set (preparedModels (mDesc b))"
    using pms by simp_all
  have sz: "getSizeOfData sampleTypeManager (type (sampleOperand [0, 4, 4, 3])) [0, 4, 4, 3] = 0"
    by (simp add: sampleTypeManager_def sampleOperand_def)
  from finish_two_devices [OF run p q dev, of sampleBase] opnd dims sz
  have "finish sampleExternals b =
          Some (ANEURALNETWORKS_NO_ERROR, b\<lparr>mAllocator := None, mFinished := True\<rparr>) \<and>
        allocate sampleExternals sampleTypeManager sampleBase
          (b\<lparr>mAllocator := None, mFinished := True\<rparr>) =
            Some ((ANEURALNETWORKS_OP_FAILED, None), [])"
    by auto
  with run pms show "\<exists>b. runCalls sampleExternals sampleTypeManager newMemoryBuilder
          [AddRole sampleCompilationUnknown INPUT 0 (Finite 1),
           AddRole sampleCompilationUnknown OUTPUT 0 (Finite 1)] = Some b \<and>
        preparedModels (mDesc b) = [10, 20] \<and>
        finish sampleExternals b =
          Some (ANEURALNETWORKS_NO_ERROR, b\<lparr>mAllocator := None, mFinished := True\<rparr>) \<and>
        allocate sampleExternals sampleTypeManager sampleBase
          (b\<lparr>mAllocator := None, mFinished := True\<rparr>) =
            Some ((ANEURALNETWORKS_OP_FAILED, None), [])"
    by blast
next
  from sample_two_roles obtain b where
    run: "runCalls sampleExternals sampleTypeManager newMemoryBuilder
          [AddRole sampleCompilation INPUT 0 (Finite 1),
           AddRole sampleCompilation OUTPUT 0 (Finite 1)] = Some b"
    and pms: "preparedModels (mDesc b) = [10, 20]"
    and dims: "desc_dimensions (mDesc b) = [1, 4, 4, 3]"
    and opnd: "mOperand b = Some (sampleOperand [0, 4, 4, 3])"
    by blast
  have p: "10 \<in> set (preparedModels (mDesc b))" and q: "20 \<in> set (preparedModels (mDesc b))"
    using pms by simp_all
  have dev: "getDevice sampleExternals 10 \<noteq> getDevice sampleExternals 20"
    by (simp add: sampleExternals_def)
  have sz: "getSizeOfData sampleTypeManager (type (sampleOperand [0, 4, 4, 3])) [1, 4, 4, 3] = 192"
    by (simp add: sampleTypeManager_def sampleOperand_def)
  from finish_two_devices [OF run p q dev, of sampleBase] opnd dims sz
  have "finish sampleExternals b =
          Some (ANEURALNETWORKS_NO_ERROR, b\<lparr>mAllocator := None, mFinished := True\<rparr>) \<and>
        (\<exists>r. allocate sampleExternals sampleTypeManager sampleBase
                (b\<lparr>mAllocator := None, mFinished := True\<rparr>) = Some (r, [AshmemCreate 192]))"
    by auto
  with run pms dev show "\<exists>b. runCalls sampleExternals sampleTypeManager newMemoryBuilder
          [AddRole sampleCompilation INPUT 0 (Finite 1),
           AddRole sampleCompilation OUTPUT 0 (Finite 1)] = Some b \<and>
        preparedModels (mDesc b) = [10, 20] \<and>
        getDevice sampleExternals 10 \<noteq> getDevice sampleExternals 20 \<and>
        finish sampleExternals b =
          Some (ANEURALNETWORKS_NO_ERROR, b\<lparr>mAllocator := None, mFinished := True\<rparr>) \<and>
        (\<exists>r. allocate sampleExternals sampleTypeManager sampleBase
                (b\<lparr>mAllocator := None, mFinished := True\<rparr>) = Some (r, [AshmemCreate 192]))"
    by blast
qed

text \<open>
  The claim as stated (every \<open>allocate\<close> after such a \<open>finish\<close> takes the host fallback
  path) fails when a dimension is still unknown: two roles on prepared models 10 and 20
  (devices 1 and 2) with shape [0,4,4,3]; \<open>finish\<close> succeeds with no allocator, and
  \<open>allocate\<close> returns \<open>ANEURALNETWORKS_OP_FAILED\<close> with no object and makes no
  allocation call at all, the host one included.
\<close>

theorem finish_two_devices_counterexample:
  "runCalls sampleExternals sampleTypeManager newMemoryBuilder
     [AddRole sampleCompilationUnknown INPUT 0 (Finite 1),
      AddRole sampleCompilationUnknown OUTPUT 0 (Finite 1)] = Some sampleTwoDeviceBuilder \<and>
   preparedModels (mDesc sampleTwoDeviceBuilder) = [10, 20] \<and>
   getDevice sampleExternals 10 \<noteq> getDevice sampleExternals 20 \<and>
   finish sampleExternals sampleTwoDeviceBuilder =
     Some (ANEURALNETWORKS_NO_ERROR,
           sampleTwoDeviceBuilder\<lparr>mAllocator := None, mFinished := True\<rparr>) \<and>
   allocate sampleExternals sampleTypeManager sampleBase
     (sampleTwoDeviceBuilder\<lparr>mAllocator := None, mFinished := True\<rparr>) =
     Some ((ANEURALNETWORKS_OP_FAILED, None), [])"
  by (simp add: addRole_def badState_def newMemoryBuilder_def sampleCompilationUnknown_def
      sampleTypeManager_def sampleOperand_def combineDimensions_def float_gt_def
      sameOperandType_def float_eq_def sampleExternals_def finish_def allocate_def
      selectDeviceMemoryAllocator_def sampleTwoDeviceBuilder_def)

end
